theory Spec2Isabelle
  imports Complex_Main
begin

section \<open>JavaScript values\<close>

text \<open>
  The server receives JSON and handles it as untyped JavaScript values, so the model keeps
  them untyped. A finite number is its exact mathematical value: rounding to a double, and
  overflow to infinity, are not modelled, and there is no negative zero (it renders as
  \<open>0\<close> and is falsy, like zero). Strings are ASCII; an object is the list of its own
  entries in enumeration order.
\<close>

datatype jsnum = NaN | PosInf | NegInf | Fin rat

datatype jsval =
    JUndefined
  | JNull
  | JBool bool
  | JNum jsnum
  | JStr string
  | JArr "jsval list"
  | JObj "(string \<times> jsval) list"

datatype error = TypeError | StoreError string

subsection \<open>Strings\<close>

definition sq :: char where
  "sq = CHR 0x27"

definition lowers :: string where
  "lowers = ''abcdefghijklmnopqrstuvwxyz''"

definition uppers :: string where
  "uppers = ''ABCDEFGHIJKLMNOPQRSTUVWXYZ''"

definition toUpperCase :: "string \<Rightarrow> string" where
  "toUpperCase s = map (\<lambda>c. case map_of (zip lowers uppers) c of Some u \<Rightarrow> u | None \<Rightarrow> c) s"

definition toLowerCase :: "string \<Rightarrow> string" where
  "toLowerCase s = map (\<lambda>c. case map_of (zip uppers lowers) c of Some l \<Rightarrow> l | None \<Rightarrow> c) s"

text \<open>\<open>Array.prototype.join\<close> on strings.\<close>

fun join :: "string \<Rightarrow> string list \<Rightarrow> string" where
  "join sep [] = []"
| "join sep [x] = x"
| "join sep (x # y # ys) = x @ sep @ join sep (y # ys)"

text \<open>\<open>String.prototype.replace(/'/g, "''")\<close>: every single quote is doubled.\<close>

fun escape_quotes :: "string \<Rightarrow> string" where
  "escape_quotes [] = []"
| "escape_quotes (c # cs) = (if c = sq then sq # sq # escape_quotes cs else c # escape_quotes cs)"

fun starts_with :: "string \<Rightarrow> string \<Rightarrow> bool" where
  "starts_with p s = (take (length p) s = p)"

fun contains :: "string \<Rightarrow> string \<Rightarrow> bool" where
  "contains p [] = (p = [])"
| "contains p (c # cs) = (starts_with p (c # cs) \<or> contains p cs)"

subsection \<open>Numbers: \<open>Number(v)\<close> and the rendering of a number in a template\<close>

definition digit_chars :: string where
  "digit_chars = ''0123456789''"

text \<open>The decimal digits of a natural number, as \<open>String\<close> writes an integer.\<close>

function digits :: "int \<Rightarrow> string" where
  "digits n = (if n < 10 then [digit_chars ! nat n]
               else digits (n div 10) @ [digit_chars ! nat (n mod 10)])"
  by pat_completeness auto
termination
  by (relation "measure nat") auto

declare digits.simps [simp del]

text \<open>
  The least \<open>e\<close> with \<open>r * 10 ^ e\<close> an integer, and that integer. A finite number of the
  server is a decimal, so the search ends; the fuel only makes the function total.
\<close>

fun dec_scale :: "nat \<Rightarrow> rat \<Rightarrow> nat \<Rightarrow> int \<times> nat" where
  "dec_scale 0 r e = (\<lfloor>r\<rfloor>, e)"
| "dec_scale (Suc fuel) r e =
     (if of_int \<lfloor>r\<rfloor> = r then (\<lfloor>r\<rfloor>, e) else dec_scale fuel (r * 10) (Suc e))"

text \<open>
  \<open>Number::toString\<close> of ECMAScript for a positive value with decimal digits \<open>s\<close>
  (no trailing zero), \<open>k = length s\<close>, and value \<open>s * 10 ^ (n - k)\<close>.
\<close>

definition format_digits :: "string \<Rightarrow> int \<Rightarrow> string" where
  "format_digits s n =
     (let k = int (length s) in
      if k \<le> n \<and> n \<le> 21 then s @ replicate (nat (n - k)) (CHR ''0'')
      else if 0 < n \<and> n \<le> 21 then take (nat n) s @ ''.'' @ drop (nat n) s
      else if -6 < n \<and> n \<le> 0 then ''0.'' @ replicate (nat (- n)) (CHR ''0'') @ s
      else
        (let ex = (if n - 1 < 0 then ''-'' else ''+'') @ digits \<bar>n - 1\<bar> in
         if k = 1 then s @ ''e'' @ ex else take 1 s @ ''.'' @ drop 1 s @ ''e'' @ ex))"

definition pos_to_string :: "rat \<Rightarrow> string" where
  "pos_to_string r =
     (let (m, e) = dec_scale 400 r 0;
          ds = digits m;
          z = length (takeWhile (\<lambda>c. c = CHR ''0'') (rev ds));
          s = take (length ds - z) ds
      in format_digits s (int (length s) + int z - int e))"

fun numToString :: "jsnum \<Rightarrow> string" where
  "numToString NaN = ''NaN''"
| "numToString PosInf = ''Infinity''"
| "numToString NegInf = ''-Infinity''"
| "numToString (Fin r) =
     (if r = 0 then ''0'' else if r < 0 then ''-'' @ pos_to_string (- r) else pos_to_string r)"

text \<open>\<open>String(v)\<close>: an array joins its elements with commas, null and undefined as empty.\<close>

fun toStr :: "jsval \<Rightarrow> string" where
  "toStr JUndefined = ''undefined''"
| "toStr JNull = ''null''"
| "toStr (JBool b) = (if b then ''true'' else ''false'')"
| "toStr (JNum n) = numToString n"
| "toStr (JStr s) = s"
| "toStr (JArr xs) =
     join '','' (map (\<lambda>v. if v = JNull \<or> v = JUndefined then [] else toStr v) xs)"
| "toStr (JObj kvs) = ''[object Object]''"

text \<open>
  \<open>StringToNumber\<close>: white space is trimmed, the empty string is zero, and the rest is a
  signed decimal literal (with an optional fraction and exponent, or \<open>Infinity\<close>) or an
  unsigned \<open>0x\<close>, \<open>0o\<close> or \<open>0b\<close> integer; anything else is \<open>NaN\<close>.
\<close>

definition is_ws :: "char \<Rightarrow> bool" where
  "is_ws c = (c \<in> set [CHR '' '', CHR 0x09, CHR 0x0A, CHR 0x0B, CHR 0x0C, CHR 0x0D])"

definition trim :: "string \<Rightarrow> string" where
  "trim s = rev (dropWhile is_ws (rev (dropWhile is_ws s)))"

definition digit_of :: "string \<Rightarrow> char \<Rightarrow> int option" where
  "digit_of alphabet c = map_of (zip alphabet (map int [0 ..< length alphabet])) c"

definition hex_chars :: string where
  "hex_chars = ''0123456789abcdef''"

text \<open>The value of a digit string in a base, \<open>None\<close> when a character is no digit of it.\<close>

fun radix_value :: "nat \<Rightarrow> int \<Rightarrow> string \<Rightarrow> int option" where
  "radix_value b acc [] = Some acc"
| "radix_value b acc (c # cs) =
     (case digit_of (take b hex_chars) (hd (toLowerCase [c])) of
        None \<Rightarrow> None
      | Some d \<Rightarrow> radix_value b (acc * int b + d) cs)"

definition radix_literal :: "nat \<Rightarrow> string \<Rightarrow> jsnum" where
  "radix_literal b ds =
     (if ds = [] then NaN
      else case radix_value b 0 ds of None \<Rightarrow> NaN | Some n \<Rightarrow> Fin (of_int n))"

definition is_digit :: "char \<Rightarrow> bool" where
  "is_digit c = (c \<in> set digit_chars)"

definition scale10 :: "rat \<Rightarrow> int \<Rightarrow> rat" where
  "scale10 m e = (if 0 \<le> e then m * 10 ^ nat e else m / 10 ^ nat (- e))"

text \<open>The exponent part: nothing, or \<open>e\<close>, an optional sign and at least one digit.\<close>

definition exponent_part :: "string \<Rightarrow> int option" where
  "exponent_part s =
     (case s of
        [] \<Rightarrow> Some 0
      | c # cs \<Rightarrow>
          if c = CHR ''e'' \<or> c = CHR ''E'' then
            (let neg = (cs \<noteq> [] \<and> hd cs = CHR ''-'');
                 ds = (if cs \<noteq> [] \<and> (hd cs = CHR ''-'' \<or> hd cs = CHR ''+'') then tl cs else cs)
             in if ds = [] then None
                else case radix_value 10 0 ds of
                       None \<Rightarrow> None
                     | Some n \<Rightarrow> Some (if neg then - n else n))
          else None)"

definition unsigned_decimal :: "string \<Rightarrow> jsnum" where
  "unsigned_decimal s =
     (if s = ''Infinity'' then PosInf
      else
        (let ip = takeWhile is_digit s;
             r1 = dropWhile is_digit s;
             dot = (r1 \<noteq> [] \<and> hd r1 = CHR ''.'');
             fp = (if dot then takeWhile is_digit (tl r1) else []);
             r2 = (if dot then dropWhile is_digit (tl r1) else r1)
         in if ip = [] \<and> fp = [] then NaN
            else case (radix_value 10 0 (ip @ fp), exponent_part r2) of
                   (Some m, Some e) \<Rightarrow> Fin (scale10 (of_int m) (e - int (length fp)))
                 | _ \<Rightarrow> NaN))"

definition negate :: "jsnum \<Rightarrow> jsnum" where
  "negate n = (case n of NaN \<Rightarrow> NaN | PosInf \<Rightarrow> NegInf | NegInf \<Rightarrow> PosInf | Fin r \<Rightarrow> Fin (- r))"

definition strToNumber :: "string \<Rightarrow> jsnum" where
  "strToNumber str =
     (let s = trim str in
      if s = [] then Fin 0
      else if starts_with ''0x'' (toLowerCase (take 2 s)) then radix_literal 16 (drop 2 s)
      else if starts_with ''0o'' (toLowerCase (take 2 s)) then radix_literal 8 (drop 2 s)
      else if starts_with ''0b'' (toLowerCase (take 2 s)) then radix_literal 2 (drop 2 s)
      else if hd s = CHR ''-'' then negate (unsigned_decimal (tl s))
      else if hd s = CHR ''+'' then unsigned_decimal (tl s)
      else unsigned_decimal s)"

fun Number :: "jsval \<Rightarrow> jsnum" where
  "Number JUndefined = NaN"
| "Number JNull = Fin 0"
| "Number (JBool b) = Fin (if b then 1 else 0)"
| "Number (JNum n) = n"
| "Number (JStr s) = strToNumber s"
| "Number (JArr xs) = strToNumber (toStr (JArr xs))"
| "Number (JObj kvs) = NaN"

text \<open>Truthiness, as \<open>||\<close>, \<open>!\<close> and \<open>?:\<close> read a value.\<close>

fun truthy :: "jsval \<Rightarrow> bool" where
  "truthy JUndefined = False"
| "truthy JNull = False"
| "truthy (JBool b) = b"
| "truthy (JNum n) = (n \<noteq> NaN \<and> n \<noteq> Fin 0)"
| "truthy (JStr s) = (s \<noteq> [])"
| "truthy (JArr xs) = True"
| "truthy (JObj kvs) = True"

text \<open>\<open>xs[i]\<close>: reading past the end of an array gives undefined.\<close>

definition elem_at :: "jsval list \<Rightarrow> nat \<Rightarrow> jsval" where
  "elem_at xs i = (if i < length xs then xs ! i else JUndefined)"

text \<open>
  \<open>v.k\<close> for a value that is not null or undefined: the entry of an object, undefined when
  there is none. No other value of a JSON body has one of the properties the server reads,
  but for the \<open>values\<close> method of an array, which is no array and so counts as no values.
\<close>

definition get_prop :: "jsval \<Rightarrow> string \<Rightarrow> jsval" where
  "get_prop v k = (case v of JObj kvs \<Rightarrow> (case map_of kvs k of Some x \<Rightarrow> x | None \<Rightarrow> JUndefined)
                       | _ \<Rightarrow> JUndefined)"

text \<open>\<open>a || b\<close>.\<close>

definition or_else :: "jsval \<Rightarrow> jsval \<Rightarrow> jsval" where
  "or_else a b = (if truthy a then a else b)"

text \<open>
  \<open>v.toUpperCase()\<close>: only a string has the method, on any other value the call throws.
\<close>

definition call_toUpperCase :: "jsval \<Rightarrow> error + string" where
  "call_toUpperCase v = (case v of JStr s \<Rightarrow> Inr (toUpperCase s) | _ \<Rightarrow> Inl TypeError)"

section \<open>The predicate compiler of the page-data endpoint\<close>

definition sqlStringLiteral :: "jsval \<Rightarrow> string" where
  "sqlStringLiteral v =
     (if v = JNull \<or> v = JUndefined then ''NULL''
      else [sq] @ escape_quotes (toStr v) @ [sq])"

record empty_not_empty =
  empty_pred :: string
  notEmpty_pred :: string

definition buildEmptyNotEmpty :: "string \<Rightarrow> empty_not_empty" where
  "buildEmptyNotEmpty column =
     (let ident = ''`'' @ column @ ''`'' in
      \<lparr> empty_pred =
          ''('' @ ident @ '' IS NULL OR CAST('' @ ident @ '' AS STRING) = '' @ [sq, sq] @ '')'',
        notEmpty_pred =
          ''(NOT ('' @ ident @ '' IS NULL OR CAST('' @ ident @ '' AS STRING) = '' @ [sq, sq] @ ''))'' \<rparr>)"

definition normalizeModality :: "jsval \<Rightarrow> string" where
  "normalizeModality m =
     (case m of
        JArr xs \<Rightarrow> (if xs \<noteq> [] then toLowerCase (toStr (elem_at xs 0)) else [])
      | JStr s \<Rightarrow> toLowerCase s
      | _ \<Rightarrow> [])"

definition date_types :: "string list" where
  "date_types = [''DATE'', ''DATETIME'', ''TIMESTAMP'']"

definition empty_modalities :: "string list" where
  "empty_modalities = [''is_null'', ''empty'', ''is empty'']"

definition not_empty_modalities :: "string list" where
  "not_empty_modalities = [''is_not_null'', ''not_empty'', ''is not empty'']"

text \<open>\<open>Array.isArray(def.values) ? def.values : []\<close>.\<close>

definition values_of :: "jsval \<Rightarrow> jsval list" where
  "values_of d = (case get_prop d ''values'' of JArr xs \<Rightarrow> xs | _ \<Rightarrow> [])"

text \<open>The free-text branch, the last of both compilers: contains, exact or starts with.\<close>

definition freetext_predicate :: "string \<Rightarrow> string \<Rightarrow> jsval list \<Rightarrow> string option" where
  "freetext_predicate ident modality vals =
     (if vals \<noteq> [] then
        (let pattern = ''%'' @ toStr (elem_at vals 0) @ ''%'';
             pattern = (if modality = ''exact'' then toStr (elem_at vals 0) else pattern);
             pattern = (if modality = ''starts with'' then toStr (elem_at vals 0) @ ''%'' else pattern);
             op = (if modality = ''exact'' then ''='' else ''LIKE'');
             rhs = ''LOWER('' @ sqlStringLiteral (JStr pattern) @ '')''
         in Some (''LOWER(CAST('' @ ident @ '' AS STRING)) '' @ op @ '' '' @ rhs))
      else None)"

text \<open>
  \<open>buildPredicateFromDef(column, def)\<close>, for an entry of a saved filter. The result is
  \<open>None\<close> for JavaScript's \<open>null\<close>; the one call that can throw is \<open>toUpperCase\<close> on a
  type that is not a string.
\<close>

definition buildPredicateFromDef :: "string \<Rightarrow> jsval \<Rightarrow> error + string option" where
  "buildPredicateFromDef column d =
     (let ident = ''`'' @ column @ ''`'' in
      case call_toUpperCase (or_else (get_prop d ''type'') (JStr [])) of
        Inl e \<Rightarrow> Inl e
      | Inr type \<Rightarrow>
         (let modality = normalizeModality (get_prop d ''modality'');
              vals = values_of d
          in Inr (
            if type \<notin> set date_types \<and> modality \<in> set empty_modalities
              then Some (empty_pred (buildEmptyNotEmpty column))
            else if type \<notin> set date_types \<and> modality \<in> set not_empty_modalities
              then Some (notEmpty_pred (buildEmptyNotEmpty column))
            else if type = ''LIST'' then
              (if vals = [] then None
               else Some (ident @ '' IN ('' @ join '', '' (map sqlStringLiteral vals) @ '')''))
            else if type = ''BOOLEAN'' \<or> type = ''BOOL'' then
              (if vals = [] then None
               else Some (ident @ '' = '' @ (if truthy (elem_at vals 0) then ''TRUE'' else ''FALSE'')))
            else if type = ''NUMERIC'' then
              (let v0 = elem_at vals 0; v1 = elem_at vals 1 in
               if modality = ''greater than'' then Some (ident @ '' > '' @ numToString (Number v0))
               else if modality = ''less than'' then Some (ident @ '' < '' @ numToString (Number v0))
               else if modality = ''between'' then
                 Some (ident @ '' BETWEEN '' @ numToString (Number v0)
                       @ '' AND '' @ numToString (Number v1))
               else Some (ident @ '' = '' @ numToString (Number v0)))
            else if type \<in> set date_types then
              (let v0 = elem_at vals 0; v1 = elem_at vals 1 in
               if \<not> truthy v0 \<and> \<not> truthy v1 then None
               else
                 (let colDate = ''DATE('' @ ident @ '')'' in
                  if modality = ''before'' then
                    Some (colDate @ '' < DATE('' @ sqlStringLiteral v0 @ '')'')
                  else if modality = ''after'' then
                    Some (colDate @ '' > DATE('' @ sqlStringLiteral v0 @ '')'')
                  else if modality = ''between'' then
                    Some (colDate @ '' BETWEEN DATE('' @ sqlStringLiteral v0
                          @ '') AND DATE('' @ sqlStringLiteral v1 @ '')'')
                  else Some (colDate @ '' = DATE('' @ sqlStringLiteral v0 @ '')'')))
            else freetext_predicate ident modality vals)))"

text \<open>The relative date tokens of a user filter, compared with \<open>===\<close>.\<close>

definition date_token_predicate :: "string \<Rightarrow> jsval \<Rightarrow> string option" where
  "date_token_predicate colDate token =
     (if \<not> truthy token then None
      else if token = JStr ''today'' then Some (colDate @ '' = CURRENT_DATE()'')
      else if token = JStr ''yesterday'' then
        Some (colDate @ '' = DATE_SUB(CURRENT_DATE(), INTERVAL 1 DAY)'')
      else if token = JStr ''last 7 days'' then
        Some (colDate @ '' BETWEEN DATE_SUB(CURRENT_DATE(), INTERVAL 7 DAY) AND CURRENT_DATE()'')
      else if token = JStr ''this month'' then
        Some (colDate @ '' BETWEEN DATE_TRUNC(CURRENT_DATE(), MONTH) AND CURRENT_DATE()'')
      else if token = JStr ''last month'' then
        Some (colDate @ '' BETWEEN DATE_SUB(DATE_TRUNC(CURRENT_DATE(), MONTH), INTERVAL 1 MONTH) AND DATE_SUB(DATE_TRUNC(CURRENT_DATE(), MONTH), INTERVAL 1 DAY)'')
      else if token = JStr ''tomorrow'' then
        Some (colDate @ '' = DATE_ADD(CURRENT_DATE(), INTERVAL 1 DAY)'')
      else if token = JStr ''next 7 days'' then
        Some (colDate @ '' BETWEEN CURRENT_DATE() AND DATE_ADD(CURRENT_DATE(), INTERVAL 7 DAY)'')
      else if token = JStr ''next month'' then
        Some (colDate @ '' BETWEEN DATE_TRUNC(DATE_ADD(CURRENT_DATE(), INTERVAL 1 MONTH), MONTH) AND DATE_SUB(DATE_TRUNC(DATE_ADD(CURRENT_DATE(), INTERVAL 2 MONTH), MONTH), INTERVAL 1 DAY)'')
      else None)"

text \<open>
  \<open>typeof v === 'string' && /top 10%|bottom 10%/i.test(v)\<close>: the pattern is ASCII, so
  ignoring case is comparing the lower-cased string.
\<close>

definition is_percent_token :: "jsval \<Rightarrow> bool" where
  "is_percent_token v =
     (case v of
        JStr s \<Rightarrow> contains ''top 10%'' (toLowerCase s) \<or> contains ''bottom 10%'' (toLowerCase s)
      | _ \<Rightarrow> False)"

text \<open>
  \<open>buildPredicateFromUser(column, userDef, fieldType)\<close>, for an entry of the request's
  \<open>userFilters\<close>; \<open>fieldType\<close> is the column's type in the schema, a string.
\<close>

definition buildPredicateFromUser :: "string \<Rightarrow> jsval \<Rightarrow> string \<Rightarrow> error + string option" where
  "buildPredicateFromUser column userDef fieldType =
     (case call_toUpperCase (or_else (or_else (get_prop userDef ''type'') (JStr fieldType)) (JStr [])) of
        Inl e \<Rightarrow> Inl e
      | Inr type \<Rightarrow>
         (let vals = values_of userDef;
              ident = ''`'' @ column @ ''`'';
              modality = normalizeModality (get_prop userDef ''modality'')
          in Inr (
            if length vals = 1 \<and> (elem_at vals 0 = JStr ''Empty'' \<or> elem_at vals 0 = JStr ''Not Empty'')
              then (if elem_at vals 0 = JStr ''Empty''
                    then Some (empty_pred (buildEmptyNotEmpty column))
                    else Some (notEmpty_pred (buildEmptyNotEmpty column)))
            else if type \<notin> set date_types \<and> modality \<in> set empty_modalities
              then Some (empty_pred (buildEmptyNotEmpty column))
            else if type \<notin> set date_types \<and> modality \<in> set not_empty_modalities
              then Some (notEmpty_pred (buildEmptyNotEmpty column))
            else if type = ''LIST'' then
              (if vals = [] then None
               else Some (ident @ '' IN ('' @ join '', '' (map sqlStringLiteral vals) @ '')''))
            else if type = ''BOOLEAN'' \<or> type = ''BOOL'' then
              (if vals = [] then None
               else Some (ident @ '' = '' @ (if truthy (elem_at vals 0) then ''TRUE'' else ''FALSE'')))
            else if type = ''NUMERIC'' then
              (if vals = [] then None
               else if is_percent_token (elem_at vals 0) then None
               else Some (ident @ '' = '' @ numToString (Number (elem_at vals 0))))
            else if type \<in> set date_types then
              date_token_predicate (''DATE('' @ ident @ '')'') (elem_at vals 0)
            else freetext_predicate ident modality vals)))"

section \<open>Option discovery (utils/generateFilterConfig.js)\<close>

text \<open>
  A column of the table's schema, and a row of a query result. The type of a column is a
  string; a column without one has the empty string, which \<open>f.type || ''\<close> gives as well.
\<close>

record schema_field =
  field_name :: string
  field_type :: string

type_synonym row = "(string \<times> jsval) list"

record filter_entry =
  columnName :: string
  filterType :: string
  options :: "jsval list"

definition empty_options :: "jsval list" where
  "empty_options = [JStr ''Empty'', JStr ''Not Empty'']"

definition numeric_types :: "string list" where
  "numeric_types = [''INT64'', ''NUMERIC'', ''BIGNUMERIC'', ''FLOAT64'']"

text \<open>\<open>generateFilterConfigFromSchema(schemaFields)\<close>: no query, the types alone.\<close>

definition schema_entry :: "schema_field \<Rightarrow> filter_entry" where
  "schema_entry f =
     (let type = toUpperCase (field_type f);
          (ft, opts) =
            (if type \<in> set date_types then
               (''DATE'', map JStr [''today'', ''yesterday'', ''last 7 days'', ''this month'', ''last month''])
             else if type = ''BOOL'' \<or> type = ''BOOLEAN'' then (''BOOLEAN'', [JBool True, JBool False])
             else if type \<in> set numeric_types then
               (''NUMERIC'', map JStr [''top 10%'', ''bottom 10%''])
             else if type = ''STRING'' then (''FREETEXT'', [])
             else (''FREETEXT'', []));
          opts = (if length opts = 0 then empty_options else opts)
      in \<lparr> columnName = field_name f, filterType = ft, options = opts \<rparr>)"

fun schema_loop :: "schema_field list \<Rightarrow> filter_entry list \<Rightarrow> filter_entry list" where
  "schema_loop [] config = config"
| "schema_loop (f # fs) config =
     (if field_type f = ''RECORD'' then schema_loop fs config
      else schema_loop fs (config @ [schema_entry f]))"

definition generateFilterConfigFromSchema :: "schema_field list \<Rightarrow> filter_entry list" where
  "generateFilterConfigFromSchema schemaFields = schema_loop schemaFields []"

text \<open>
  The store answers a query with rows or fails. \<open>a <= b\<close> on numbers is false when one
  of them is \<open>NaN\<close>.
\<close>

type_synonym query_fn = "string \<Rightarrow> error + row list"

fun num_le :: "jsnum \<Rightarrow> jsnum \<Rightarrow> bool" where
  "num_le NaN b = False"
| "num_le a NaN = False"
| "num_le NegInf b = True"
| "num_le a PosInf = True"
| "num_le PosInf b = False"
| "num_le a NegInf = False"
| "num_le (Fin x) (Fin y) = (x \<le> y)"

text \<open>\<open>Number(v) || 0\<close>.\<close>

definition number_or_zero :: "jsval \<Rightarrow> jsnum" where
  "number_or_zero v = (if truthy (JNum (Number v)) then Number v else Fin 0)"

definition countQuery_of :: "string \<Rightarrow> string \<Rightarrow> string" where
  "countQuery_of qualified column =
     ''SELECT APPROX_COUNT_DISTINCT(`'' @ column @ ''`) AS c FROM '' @ qualified"

definition listQuery_of :: "string \<Rightarrow> string \<Rightarrow> string" where
  "listQuery_of qualified column =
     ''SELECT DISTINCT CAST(`'' @ column @ ''` AS STRING) AS v FROM '' @ qualified
     @ '' WHERE `'' @ column @ ''` IS NOT NULL ORDER BY v LIMIT 20''"

definition topQuery_of :: "string \<Rightarrow> string \<Rightarrow> string" where
  "topQuery_of qualified column =
     ''SELECT CAST(`'' @ column @ ''` AS STRING) AS v, COUNT(1) AS c FROM '' @ qualified
     @ '' WHERE `'' @ column @ ''` IS NOT NULL GROUP BY v ORDER BY c DESC LIMIT 10''"

text \<open>
  The state of one turn of the loop when its \<open>try\<close> block ends: the filter type and the
  options assigned so far, the exception if one was thrown, and the queries issued.
\<close>

record discovery =
  d_filterType :: string
  d_options :: "jsval list"
  d_thrown :: "error option"
  d_issued :: "string list"

text \<open>
  The branch of a \<open>STRING\<close> column. \<open>countRows[0].c\<close> throws when the count query
  returned no row. The filter type is assigned before the second query is awaited.
\<close>

definition discover_string :: "query_fn \<Rightarrow> string \<Rightarrow> string \<Rightarrow> discovery" where
  "discover_string q qualified column =
     (let countQuery = countQuery_of qualified column in
      case q countQuery of
        Inl e \<Rightarrow>
          \<lparr> d_filterType = ''FREETEXT'', d_options = [], d_thrown = Some e, d_issued = [countQuery] \<rparr>
      | Inr [] \<Rightarrow>
          \<lparr> d_filterType = ''FREETEXT'', d_options = [], d_thrown = Some TypeError,
            d_issued = [countQuery] \<rparr>
      | Inr (r # rs) \<Rightarrow>
          (let distinctCount = number_or_zero (get_prop (JObj r) ''c'') in
           if num_le distinctCount (Fin 20) then
             (let listQuery = listQuery_of qualified column in
              case q listQuery of
                Inl e \<Rightarrow>
                  \<lparr> d_filterType = ''LIST'', d_options = [], d_thrown = Some e,
                    d_issued = [countQuery, listQuery] \<rparr>
              | Inr vals \<Rightarrow>
                  \<lparr> d_filterType = ''LIST'', d_options = map (\<lambda>r. get_prop (JObj r) ''v'') vals,
                    d_thrown = None, d_issued = [countQuery, listQuery] \<rparr>)
           else
             (let topQuery = topQuery_of qualified column in
              case q topQuery of
                Inl e \<Rightarrow>
                  \<lparr> d_filterType = ''FREETEXT'', d_options = [], d_thrown = Some e,
                    d_issued = [countQuery, topQuery] \<rparr>
              | Inr vals \<Rightarrow>
                  \<lparr> d_filterType = ''FREETEXT'', d_options = map (\<lambda>r. get_prop (JObj r) ''v'') vals,
                    d_thrown = None, d_issued = [countQuery, topQuery] \<rparr>)))"

definition try_discover :: "query_fn \<Rightarrow> string \<Rightarrow> string \<Rightarrow> string \<Rightarrow> discovery" where
  "try_discover q qualified column type =
     (if type \<in> set date_types then
        \<lparr> d_filterType = ''DATE'',
          d_options = map JStr [''today'', ''yesterday'', ''last 7 days'', ''this month'',
                                ''last month'', ''tomorrow'', ''next 7 days'', ''next month''],
          d_thrown = None, d_issued = [] \<rparr>
      else if type = ''BOOL'' \<or> type = ''BOOLEAN'' then
        \<lparr> d_filterType = ''BOOLEAN'', d_options = [JBool True, JBool False],
          d_thrown = None, d_issued = [] \<rparr>
      else if type \<in> set numeric_types then
        \<lparr> d_filterType = ''NUMERIC'', d_options = map JStr [''top 10%'', ''bottom 10%''],
          d_thrown = None, d_issued = [] \<rparr>
      else if type = ''STRING'' then discover_string q qualified column
      else \<lparr> d_filterType = ''FREETEXT'', d_options = [], d_thrown = None, d_issued = [] \<rparr>)"

text \<open>
  One turn of the loop of \<open>generateFilterConfig\<close>: the \<open>try\<close> block, the \<open>catch\<close>
  block (which keeps the filter type unless the column is \<open>BOOLEAN\<close>, and keeps the
  options), and the replacement of an empty option list.
\<close>

definition column_entry :: "query_fn \<Rightarrow> string \<Rightarrow> schema_field \<Rightarrow> filter_entry \<times> string list" where
  "column_entry q qualified f =
     (let column = field_name f;
          type = toUpperCase (field_type f);
          d = try_discover q qualified column type;
          ft = (case d_thrown d of
                    None \<Rightarrow> d_filterType d
                  | Some e \<Rightarrow> (if type = ''BOOLEAN'' then ''BOOLEAN'' else d_filterType d));
          opts = (if length (d_options d) = 0 then empty_options else d_options d)
      in (\<lparr> columnName = column, filterType = ft, options = opts \<rparr>, d_issued d))"

fun config_loop ::
  "query_fn \<Rightarrow> string \<Rightarrow> schema_field list \<Rightarrow> filter_entry list \<times> string list
     \<Rightarrow> filter_entry list \<times> string list" where
  "config_loop q qualified [] acc = acc"
| "config_loop q qualified (f # fs) (config, issued) =
     (if field_type f = ''RECORD'' then config_loop q qualified fs (config, issued)
      else (let (entry, qs) = column_entry q qualified f
            in config_loop q qualified fs (config @ [entry], issued @ qs)))"

text \<open>
  \<open>generateFilterConfig(bigquery, projectId, datasetId, tableId, schemaFields)\<close>: the
  configuration, and the queries it sent to the store, in order.
\<close>

definition generateFilterConfig ::
  "query_fn \<Rightarrow> string \<Rightarrow> string \<Rightarrow> string \<Rightarrow> schema_field list
     \<Rightarrow> filter_entry list \<times> string list" where
  "generateFilterConfig q projectId datasetId tableId schemaFields =
     config_loop q (''`'' @ projectId @ ''.'' @ datasetId @ ''.'' @ tableId @ ''`'') schemaFields ([], [])"

section \<open>The page catalog (pageDefinitions.js)\<close>

record saved_filter =
  sf_identifier :: string
  sf_displayName :: string
  sf_filterDefinition :: jsval

text \<open>
  What the endpoint reads of a page definition. The fields are values, since the lookup
  can also find a member that every object inherits, which has none of them.
\<close>

record page_config =
  title :: jsval
  subtitle :: jsval
  datasetId :: jsval
  tableId :: jsval
  savedFilters :: "saved_filter list"

definition pageDefinitions :: "(string \<times> page_config) list" where
  "pageDefinitions =
     [(''leads_view'',
       \<lparr> title = JStr ''All Leads'',
         subtitle = JStr ''A comprehensive list of all leads in the system'',
         datasetId = JStr ''relata_schema'',
         tableId = JStr ''activity'',
         savedFilters =
           [\<lparr> sf_identifier = ''high_priority_leads'',
              sf_displayName = ''High Priority'',
              sf_filterDefinition =
                JObj [(''name'', JObj [(''type'', JStr ''FREETEXT''),
                                       (''modality'', JStr ''Contains''),
                                       (''values'', JArr [JStr ''ak''])])] \<rparr>] \<rparr>),
      (''sales_report'',
       \<lparr> title = JStr ''Sales Report'',
         subtitle = JStr ''Weekly sales performance metrics'',
         datasetId = JStr ''relata_schema'',
         tableId = JStr ''vsg'',
         savedFilters =
           [\<lparr> sf_identifier = ''top_performers'',
              sf_displayName = ''Top Performers'',
              sf_filterDefinition =
                JObj [(''version'', JObj [(''type'', JStr ''FREETEXT''),
                                          (''values'', JArr [JStr ''PUBLISHED''])]),
                      (''owner_project_id'', JObj [(''type'', JStr ''FREETEXT''),
                                                   (''modality'', JArr [JStr ''is not empty''])])] \<rparr>] \<rparr>)]"

text \<open>
  \<open>pageDefinitions[pageIdentifier] || null\<close>. The key is the identifier as a string. A
  name of \<open>Object.prototype\<close> finds the inherited member, a function or an object, which is
  truthy and has no dataset, table or saved filter.
\<close>

definition object_prototype_names :: "string list" where
  "object_prototype_names =
     [''constructor'', ''__defineGetter__'', ''__defineSetter__'', ''hasOwnProperty'',
      ''__lookupGetter__'', ''__lookupSetter__'', ''isPrototypeOf'', ''propertyIsEnumerable'',
      ''toString'', ''valueOf'', ''__proto__'', ''toLocaleString'']"

definition inherited_member :: page_config where
  "inherited_member =
     \<lparr> title = JUndefined, subtitle = JUndefined, datasetId = JUndefined,
       tableId = JUndefined, savedFilters = [] \<rparr>"

definition getPageConfiguration :: "jsval \<Rightarrow> page_config option" where
  "getPageConfiguration pid =
     (case map_of pageDefinitions (toStr pid) of
        Some p \<Rightarrow> Some p
      | None \<Rightarrow> (if toStr pid \<in> set object_prototype_names then Some inherited_member else None))"

section \<open>The page-data endpoint\<close>

subsection \<open>Arithmetic on numbers\<close>

definition Math_max :: "jsnum \<Rightarrow> jsnum \<Rightarrow> jsnum" where
  "Math_max a b = (if a = NaN \<or> b = NaN then NaN else if num_le a b then b else a)"

definition Math_min :: "jsnum \<Rightarrow> jsnum \<Rightarrow> jsnum" where
  "Math_min a b = (if a = NaN \<or> b = NaN then NaN else if num_le a b then a else b)"

fun Math_ceil :: "jsnum \<Rightarrow> jsnum" where
  "Math_ceil (Fin x) = Fin (of_int \<lceil>x\<rceil>)"
| "Math_ceil n = n"

definition num_sign :: "jsnum \<Rightarrow> int" where
  "num_sign n = (case n of NaN \<Rightarrow> 0 | PosInf \<Rightarrow> 1 | NegInf \<Rightarrow> - 1
                 | Fin x \<Rightarrow> (if x < 0 then - 1 else if x = 0 then 0 else 1))"

definition signed_infinity :: "int \<Rightarrow> jsnum" where
  "signed_infinity s = (if s = 0 then NaN else if 0 < s then PosInf else NegInf)"

fun num_sub :: "jsnum \<Rightarrow> jsnum \<Rightarrow> jsnum" where
  "num_sub NaN b = NaN"
| "num_sub a NaN = NaN"
| "num_sub (Fin x) (Fin y) = Fin (x - y)"
| "num_sub PosInf PosInf = NaN"
| "num_sub NegInf NegInf = NaN"
| "num_sub PosInf b = PosInf"
| "num_sub NegInf b = NegInf"
| "num_sub a PosInf = NegInf"
| "num_sub a NegInf = PosInf"

fun num_mul :: "jsnum \<Rightarrow> jsnum \<Rightarrow> jsnum" where
  "num_mul NaN b = NaN"
| "num_mul a NaN = NaN"
| "num_mul (Fin x) (Fin y) = Fin (x * y)"
| "num_mul a b = signed_infinity (num_sign a * num_sign b)"

fun num_div :: "jsnum \<Rightarrow> jsnum \<Rightarrow> jsnum" where
  "num_div NaN b = NaN"
| "num_div a NaN = NaN"
| "num_div (Fin x) (Fin y) = (if y = 0 then signed_infinity (num_sign (Fin x)) else Fin (x / y))"
| "num_div (Fin x) b = Fin 0"
| "num_div a (Fin y) = signed_infinity (num_sign a * (if y < 0 then - 1 else 1))"
| "num_div a b = NaN"

subsection \<open>The WHERE clause\<close>

text \<open>\<open>Object.entries(v)\<close>: the entries of an object, the indexed elements of an array or
  string, nothing for another value.\<close>

definition entries :: "jsval \<Rightarrow> (string \<times> jsval) list" where
  "entries v =
     (case v of
        JObj kvs \<Rightarrow> kvs
      | JArr xs \<Rightarrow> zip (map (\<lambda>i. digits (int i)) [0 ..< length xs]) xs
      | JStr s \<Rightarrow> zip (map (\<lambda>i. digits (int i)) [0 ..< length s]) (map (\<lambda>c. JStr [c]) s)
      | _ \<Rightarrow> [])"

text \<open>\<open>fieldTypeByName\<close>: of two columns of one name the \<open>Map\<close> keeps the later.\<close>

definition fieldTypeByName :: "schema_field list \<Rightarrow> string \<Rightarrow> string option" where
  "fieldTypeByName schemaFields =
     map_of (rev (map (\<lambda>f. (field_name f, toUpperCase (field_type f))) schemaFields))"

text \<open>\<open>if (pred) whereClauses.push(pred)\<close>: null and the empty string are dropped.\<close>

definition push_pred :: "string list \<Rightarrow> string option \<Rightarrow> string list" where
  "push_pred whereClauses pred =
     (case pred of None \<Rightarrow> whereClauses
                 | Some p \<Rightarrow> (if p = [] then whereClauses else whereClauses @ [p]))"

fun saved_loop ::
  "(string \<Rightarrow> string option) \<Rightarrow> (string \<times> jsval) list \<Rightarrow> string list \<Rightarrow> error + string list" where
  "saved_loop types [] whereClauses = Inr whereClauses"
| "saved_loop types ((col, d) # rest) whereClauses =
     (if types col = None then saved_loop types rest whereClauses
      else case buildPredicateFromDef col (or_else d (JObj [])) of
             Inl e \<Rightarrow> Inl e
           | Inr pred \<Rightarrow> saved_loop types rest (push_pred whereClauses pred))"

fun user_loop ::
  "(string \<Rightarrow> string option) \<Rightarrow> (string \<times> jsval) list \<Rightarrow> string list \<Rightarrow> error + string list" where
  "user_loop types [] whereClauses = Inr whereClauses"
| "user_loop types ((col, d) # rest) whereClauses =
     (case types col of
        None \<Rightarrow> user_loop types rest whereClauses
      | Some fieldType \<Rightarrow>
          (case buildPredicateFromUser col (or_else d (JObj [])) fieldType of
             Inl e \<Rightarrow> Inl e
           | Inr pred \<Rightarrow> user_loop types rest (push_pred whereClauses pred)))"

text \<open>
  The saved filter chosen by the request, its definition (an empty object when there is
  none), and the clauses of both loops: the saved filter's first, then the user's.
\<close>

definition savedFilterDefinition_of :: "page_config \<Rightarrow> jsval \<Rightarrow> jsval" where
  "savedFilterDefinition_of cfg savedFilterIdentifier =
     (case find (\<lambda>sf. JStr (sf_identifier sf) = savedFilterIdentifier) (savedFilters cfg) of
        None \<Rightarrow> JObj []
      | Some sf \<Rightarrow> (if truthy (sf_filterDefinition sf) then sf_filterDefinition sf else JObj []))"

definition whereClauses_of ::
  "schema_field list \<Rightarrow> jsval \<Rightarrow> jsval \<Rightarrow> error + string list" where
  "whereClauses_of schemaFields savedFilterDefinition userFilters =
     (case saved_loop (fieldTypeByName schemaFields)
             (entries (or_else savedFilterDefinition (JObj []))) [] of
        Inl e \<Rightarrow> Inl e
      | Inr whereClauses \<Rightarrow>
          user_loop (fieldTypeByName schemaFields) (entries (or_else userFilters (JObj []))) whereClauses)"

definition whereSql_of :: "string list \<Rightarrow> string" where
  "whereSql_of whereClauses =
     (if length whereClauses \<noteq> 0 then ''WHERE '' @ join '' AND '' whereClauses else [])"

subsection \<open>Pagination\<close>

text \<open>\<open>v.k\<close> on any value: reading a property of null or undefined throws.\<close>

definition member :: "jsval \<Rightarrow> string \<Rightarrow> error + jsval" where
  "member v k = (if v = JNull \<or> v = JUndefined then Inl TypeError else Inr (get_prop v k))"

definition limit_of :: "jsval \<Rightarrow> jsnum" where
  "limit_of pageSize =
     Math_max (Fin 1) (Math_min (Fin 1000) (Number (or_else pageSize (JNum (Fin 10)))))"

definition offset_of :: "jsval \<Rightarrow> jsnum \<Rightarrow> jsnum" where
  "offset_of page limit =
     Math_max (Fin 0) (num_mul (num_sub (Number (or_else page (JNum (Fin 1)))) (Fin 1)) limit)"

subsection \<open>The handler\<close>

text \<open>
  The BigQuery client, as far as the endpoint uses it: reading a table's schema (an empty
  list when the metadata has none) and running a query; either can fail. A call is logged
  when the handler makes it, so that the log tells what was asked of the store.
\<close>

record bigquery_client =
  bq_projectId :: string
  bq_getMetadata :: "jsval \<Rightarrow> jsval \<Rightarrow> error + schema_field list"
  bq_query :: query_fn

datatype call = GetMetadata jsval jsval | Query string

record pagination_info =
  currentPage :: jsval
  pageSize :: jsnum
  totalRecords :: jsnum
  totalPages :: jsnum

text \<open>
  The members of the response that depend on the filters and on the page; the page's
  titles, the table headers and the list of saved filters are left out.
\<close>

record page_payload =
  payload_data :: "row list"
  payload_filterConfig :: "filter_entry list"
  payload_pagination :: pagination_info

text \<open>A response is \<open>{ ok: false, error }\<close> with a status, or the payload.\<close>

datatype response = ErrorResponse nat string | Payload page_payload

text \<open>\<open>String(error)\<close>; the wording of the engine's own errors is not modelled.\<close>

fun error_string :: "error \<Rightarrow> string" where
  "error_string TypeError = ''TypeError''"
| "error_string (StoreError msg) = msg"

text \<open>The \<open>catch\<close> block of the handler.\<close>

definition caught :: "error \<Rightarrow> response" where
  "caught e = ErrorResponse 500 (error_string e)"

text \<open>A default of a destructuring pattern applies to undefined only.\<close>

definition default_to :: "jsval \<Rightarrow> jsval \<Rightarrow> jsval" where
  "default_to v d = (if v = JUndefined then d else v)"

definition dataQuery_of :: "string \<Rightarrow> string \<Rightarrow> jsnum \<Rightarrow> jsnum \<Rightarrow> string" where
  "dataQuery_of qualified whereSql limit offset =
     ''SELECT * FROM '' @ qualified @ '' '' @ whereSql
     @ '' LIMIT '' @ numToString limit @ '' OFFSET '' @ numToString offset"

text \<open>
  The count of the rows that match; when the count query fails, or returns no row, the
  number of rows of this page.
\<close>

definition totalRecords_of :: "query_fn \<Rightarrow> string \<Rightarrow> row list \<Rightarrow> jsnum" where
  "totalRecords_of q countQuery rows =
     (case q countQuery of
        Inl e \<Rightarrow> Fin (of_nat (length rows))
      | Inr [] \<Rightarrow> Fin (of_nat (length rows))
      | Inr (r # rs) \<Rightarrow> number_or_zero (get_prop (JObj r) ''c''))"

text \<open>The \<open>try\<close> block of the handler, once the page and the client are known.\<close>

definition run_page ::
  "bigquery_client \<Rightarrow> page_config \<Rightarrow> jsval \<Rightarrow> jsval \<Rightarrow> jsval \<Rightarrow> response \<times> call list" where
  "run_page bq cfg savedFilterIdentifier userFilters pagination =
     (case bq_getMetadata bq (datasetId cfg) (tableId cfg) of
        Inl e \<Rightarrow> (caught e, [GetMetadata (datasetId cfg) (tableId cfg)])
      | Inr schemaFields \<Rightarrow>
         (let (filterConfig, issued) =
                generateFilterConfig (bq_query bq) (bq_projectId bq)
                  (toStr (datasetId cfg)) (toStr (tableId cfg)) schemaFields;
              calls = GetMetadata (datasetId cfg) (tableId cfg) # map Query issued
          in case whereClauses_of schemaFields
                    (savedFilterDefinition_of cfg savedFilterIdentifier) userFilters of
               Inl e \<Rightarrow> (caught e, calls)
             | Inr whereClauses \<Rightarrow>
                (case member pagination ''pageSize'' of
                   Inl e \<Rightarrow> (caught e, calls)
                 | Inr requestedSize \<Rightarrow>
                    (case member pagination ''page'' of
                       Inl e \<Rightarrow> (caught e, calls)
                     | Inr requestedPage \<Rightarrow>
                        (let qualified = ''`'' @ bq_projectId bq @ ''.'' @ toStr (datasetId cfg)
                                         @ ''.'' @ toStr (tableId cfg) @ ''`'';
                             whereSql = whereSql_of whereClauses;
                             limit = limit_of requestedSize;
                             offset = offset_of requestedPage limit;
                             dataQuery = dataQuery_of qualified whereSql limit offset
                         in case bq_query bq dataQuery of
                              Inl e \<Rightarrow> (caught e, calls @ [Query dataQuery])
                            | Inr rows \<Rightarrow>
                               (let countQuery = ''SELECT COUNT(1) AS c FROM '' @ qualified
                                                 @ '' '' @ whereSql;
                                    total = totalRecords_of (bq_query bq) countQuery rows
                                in (Payload
                                      \<lparr> payload_data = rows,
                                        payload_filterConfig = filterConfig,
                                        payload_pagination =
                                          \<lparr> currentPage = or_else requestedPage (JNum (Fin 1)),
                                            pageSize = limit,
                                            totalRecords = total,
                                            totalPages =
                                              Math_max (Fin 1) (Math_ceil (num_div total limit)) \<rparr> \<rparr>,
                                    calls @ [Query dataQuery, Query countQuery])))))))"

text \<open>
  \<open>POST /api/page-data\<close>: the response to a request body, and the calls made to the
  store. The client is \<open>None\<close> when it could not be initialised.
\<close>

definition page_data :: "bigquery_client option \<Rightarrow> jsval \<Rightarrow> response \<times> call list" where
  "page_data bigquery body =
     (let b = or_else body (JObj []);
          savedFilterIdentifier = default_to (get_prop b ''savedFilterIdentifier'') JNull;
          userFilters = default_to (get_prop b ''userFilters'') (JObj []);
          pagination = default_to (get_prop b ''pagination'')
                         (JObj [(''page'', JNum (Fin 1)), (''pageSize'', JNum (Fin 10))])
      in case getPageConfiguration (get_prop b ''pageIdentifier'') of
           None \<Rightarrow> (ErrorResponse 400 ''Invalid pageIdentifier'', [])
         | Some cfg \<Rightarrow>
            (case bigquery of
               None \<Rightarrow> (ErrorResponse 500 ''BigQuery client not initialized'', [])
             | Some bq \<Rightarrow> run_page bq cfg savedFilterIdentifier userFilters pagination))"

section \<open>Notions used to state the properties\<close>

text \<open>
  In a quoted literal every single quote of the body stands in a pair: read from the left,
  a quote is followed by a second one, and the two are skipped together.
\<close>

fun quotes_paired :: "string \<Rightarrow> bool" where
  "quotes_paired [] = True"
| "quotes_paired [c] = (c \<noteq> sq)"
| "quotes_paired (c # d # cs) =
     (if c = sq then d = sq \<and> quotes_paired cs else quotes_paired (d # cs))"

text \<open>Reading a body back: a pair of quotes is one quote, a lone quote is no body.\<close>

fun unescape_quotes :: "string \<Rightarrow> string option" where
  "unescape_quotes [] = Some []"
| "unescape_quotes [c] = (if c = sq then None else Some [c])"
| "unescape_quotes (c # d # cs) =
     (if c = sq then (if d = sq then map_option ((#) sq) (unescape_quotes cs) else None)
      else map_option ((#) c) (unescape_quotes (d # cs)))"

text \<open>
  Reading a whole fragment of SQL from the left: outside a literal a quote opens one;
  inside, a pair of quotes is a quote of the body and a lone quote closes the literal.
  The quotes of a fragment are closed when the reading ends outside a literal.
\<close>

fun quote_scan :: "bool \<Rightarrow> string \<Rightarrow> bool" where
  "quote_scan inside [] = (\<not> inside)"
| "quote_scan False (c # cs) = quote_scan (c = sq) cs"
| "quote_scan True [c] = (c = sq)"
| "quote_scan True (c # d # cs) =
     (if c = sq then (if d = sq then quote_scan True cs else quote_scan False (d # cs))
      else quote_scan True (d # cs))"

definition quotes_closed :: "string \<Rightarrow> bool" where
  "quotes_closed s = quote_scan False s"

definition no_quote_next :: "string \<Rightarrow> bool" where
  "no_quote_next b = (case b of [] \<Rightarrow> True | c # cs \<Rightarrow> c \<noteq> sq)"

definition closes :: "string \<Rightarrow> string option \<Rightarrow> bool" where
  "closes b pred = (case pred of None \<Rightarrow> True
                    | Some p \<Rightarrow> quote_scan False (p @ b) = quote_scan False b)"

text \<open>
  The type and the modality that the two compilers compute from a definition, and the
  qualified table name of \<open>generateFilterConfig\<close>.
\<close>

definition def_type :: "jsval \<Rightarrow> error + string" where
  "def_type d = call_toUpperCase (or_else (get_prop d ''type'') (JStr []))"

definition user_type :: "jsval \<Rightarrow> string \<Rightarrow> error + string" where
  "user_type d fieldType =
     call_toUpperCase (or_else (or_else (get_prop d ''type'') (JStr fieldType)) (JStr []))"

definition def_modality :: "jsval \<Rightarrow> string" where
  "def_modality d = normalizeModality (get_prop d ''modality'')"

definition qualified_of :: "string \<Rightarrow> string \<Rightarrow> string \<Rightarrow> string" where
  "qualified_of p d t = ''`'' @ p @ ''.'' @ d @ ''.'' @ t @ ''`''"

text \<open>
  Stores for the examples: one that is down, one that only counts, and one that answers
  for a column of three values and a column of many.
\<close>

definition unavailable_store :: query_fn where
  "unavailable_store s = Inl (StoreError ''unavailable'')"

definition count_only_store :: query_fn where
  "count_only_store s =
     (if s = countQuery_of ''`p.d.t`'' ''status'' then Inr [[(''c'', JNum (Fin 3))]]
      else if s = countQuery_of ''`p.d.t`'' ''city'' then Inr [[(''c'', JNum (Fin 25))]]
      else Inl (StoreError ''unavailable''))"

definition example_store :: query_fn where
  "example_store s =
     (if s = countQuery_of ''`p.d.t`'' ''status'' then Inr [[(''c'', JNum (Fin 3))]]
      else if s = listQuery_of ''`p.d.t`'' ''status'' then
        Inr [[(''v'', JStr ''active'')], [(''v'', JStr ''closed'')], [(''v'', JStr ''pending'')]]
      else if s = countQuery_of ''`p.d.t`'' ''city'' then Inr [[(''c'', JNum (Fin 25))]]
      else if s = topQuery_of ''`p.d.t`'' ''city'' then
        Inr [[(''v'', JStr ''Pune''), (''c'', JNum (Fin 40))],
             [(''v'', JStr ''Delhi''), (''c'', JNum (Fin 31))]]
      else Inl (StoreError ''unavailable''))"

text \<open>\<open>vals.map((r) => r.v)\<close>.\<close>

definition option_values :: "row list \<Rightarrow> jsval list" where
  "option_values vals = map (\<lambda>r. get_prop (JObj r) ''v'') vals"

definition unavailable_client :: bigquery_client where
  "unavailable_client =
     \<lparr> bq_projectId = ''p'',
       bq_getMetadata = (\<lambda>d t. Inl (StoreError ''unavailable'')),
       bq_query = unavailable_store \<rparr>"



text \<open>
  The combination rule in the words of the specification: every definition on a column
  of the schema is compiled on its own, a definition that compiles to null contributes
  nothing, and the fragments that remain are kept in order.
\<close>

definition saved_fragments :: "(string \<Rightarrow> string option) \<Rightarrow> (string \<times> jsval) list \<Rightarrow> string list" where
  "saved_fragments types es =
     concat (map (\<lambda>(col, d).
       if types col = None then []
       else (case buildPredicateFromDef col (or_else d (JObj [])) of
               Inr (Some p) \<Rightarrow> [p] | _ \<Rightarrow> [])) es)"

definition user_fragments :: "(string \<Rightarrow> string option) \<Rightarrow> (string \<times> jsval) list \<Rightarrow> string list" where
  "user_fragments types es =
     concat (map (\<lambda>(col, d).
       case types col of
         None \<Rightarrow> []
       | Some fieldType \<Rightarrow>
           (case buildPredicateFromUser col (or_else d (JObj [])) fieldType of
              Inr (Some p) \<Rightarrow> [p] | _ \<Rightarrow> [])) es)"

text \<open>
  The store's reading of a membership test, as far as the example of a contradiction
  needs it: a quoted literal denotes the string whose quotes it doubles, and a row
  satisfies \<open>column IN (literals)\<close> when its column is not null and holds the string of one
  of the literals.
\<close>

definition literal_string :: "string \<Rightarrow> string option" where
  "literal_string l =
     (case l of
        [] \<Rightarrow> None
      | c # cs \<Rightarrow> if c = sq \<and> cs \<noteq> [] \<and> last cs = sq then unescape_quotes (butlast cs) else None)"

definition in_holds :: "string option \<Rightarrow> string list \<Rightarrow> bool" where
  "in_holds v lits = (case v of None \<Rightarrow> False | Some x \<Rightarrow> Some x \<in> set (map literal_string lits))"

text \<open>The definition \<open>{ type: 'LIST', values: [a] }\<close>.\<close>

definition list_def :: "string \<Rightarrow> jsval" where
  "list_def a = JObj [(''type'', JStr ''LIST''), (''values'', JArr [JStr a])]"

text \<open>
  A client for a table of one text column whose discovery and count queries fail, and a
  request for the page of leads with its saved filter and a user filter on the same column.
\<close>

definition leads_client :: bigquery_client where
  "leads_client =
     \<lparr> bq_projectId = ''p'',
       bq_getMetadata = (\<lambda>d t. Inr [\<lparr> field_name = ''name'', field_type = ''STRING'' \<rparr>]),
       bq_query = (\<lambda>s. if starts_with ''SELECT * '' s then Inr [[(''name'', JStr ''akshay'')]]
                        else Inl (StoreError ''unavailable'')) \<rparr>"

definition leads_request :: jsval where
  "leads_request =
     JObj [(''pageIdentifier'', JStr ''leads_view''),
           (''savedFilterIdentifier'', JStr ''high_priority_leads''),
           (''userFilters'',
              JObj [(''name'', JObj [(''type'', JStr ''FREETEXT''), (''modality'', JStr ''exact''),
                                     (''values'', JArr [JStr ''akshay''])])])]"

fun is_payload :: "response \<Rightarrow> bool" where
  "is_payload (Payload pl) = True"
| "is_payload (ErrorResponse status msg) = False"

section \<open>Properties\<close>

subsection \<open>Loops as maps\<close>

lemma config_loop_map:
  "config_loop q qual fs (config, issued) =
     (config @ map (\<lambda>f. fst (column_entry q qual f)) (filter (\<lambda>f. field_type f \<noteq> ''RECORD'') fs),
      issued @ concat (map (\<lambda>f. snd (column_entry q qual f))
                        (filter (\<lambda>f. field_type f \<noteq> ''RECORD'') fs)))"
  by (induction fs arbitrary: config issued) (auto simp: case_prod_beta Let_def)

lemma schema_loop_map:
  "schema_loop fs config = config @ map schema_entry (filter (\<lambda>f. field_type f \<noteq> ''RECORD'') fs)"
  by (induction fs arbitrary: config) auto

lemma column_entry_options:
  "options (fst (column_entry q qual f)) =
     (if d_options (try_discover q qual (field_name f) (toUpperCase (field_type f))) = []
      then [JStr ''Empty'', JStr ''Not Empty'']
      else d_options (try_discover q qual (field_name f) (toUpperCase (field_type f))))"
  by (simp add: column_entry_def Let_def empty_options_def)

lemma column_entry_name: "columnName (fst (column_entry q qual f)) = field_name f"
  by (simp add: column_entry_def Let_def)

lemma schema_entry_options: "options (schema_entry f) \<noteq> []"
  by (simp add: schema_entry_def Let_def empty_options_def case_prod_beta)

subsection \<open>Quoting\<close>

lemma quotes_paired_escape: "quotes_paired (escape_quotes s)"
proof (induction s)
  case Nil
  then show ?case by simp
next
  case (Cons c cs)
  show ?case
  proof (cases "c = sq")
    case True
    with Cons show ?thesis by simp
  next
    case False
    with Cons show ?thesis by (cases "escape_quotes cs") auto
  qed
qed

lemma unescape_escape: "unescape_quotes (escape_quotes s) = Some s"
proof (induction s)
  case Nil
  then show ?case by simp
next
  case (Cons c cs)
  show ?case
  proof (cases "c = sq")
    case True
    with Cons show ?thesis by simp
  next
    case False
    with Cons show ?thesis by (cases "escape_quotes cs") auto
  qed
qed

lemma upper_LIST: "toUpperCase ''LIST'' = ''LIST''"
  by (simp add: toUpperCase_def lowers_def uppers_def)

lemma list_branch_def:
  assumes "def_type d = Inr ''LIST''"
    and "def_modality d \<notin> set empty_modalities \<union> set not_empty_modalities"
    and "values_of d \<noteq> []"
  shows "buildPredicateFromDef c d =
           Inr (Some (''`'' @ c @ ''` IN ('' @ join '', '' (map sqlStringLiteral (values_of d)) @ '')''))"
  using assms
  by (simp add: buildPredicateFromDef_def def_type_def def_modality_def date_types_def Let_def)

lemma list_branch_user:
  assumes "user_type d ft = Inr ''LIST''"
    and "def_modality d \<notin> set empty_modalities \<union> set not_empty_modalities"
    and "values_of d \<noteq> []"
    and "values_of d \<noteq> [JStr ''Empty'']" and "values_of d \<noteq> [JStr ''Not Empty'']"
  shows "buildPredicateFromUser c d ft =
           Inr (Some (''`'' @ c @ ''` IN ('' @ join '', '' (map sqlStringLiteral (values_of d)) @ '')''))"
proof -
  have "\<not> (length (values_of d) = 1 \<and>
            (elem_at (values_of d) 0 = JStr ''Empty'' \<or> elem_at (values_of d) 0 = JStr ''Not Empty''))"
    using assms(4,5) by (cases "values_of d") (auto simp: elem_at_def)
  with assms(1,2,3) show ?thesis
    by (auto simp: buildPredicateFromUser_def user_type_def def_modality_def date_types_def Let_def)
qed

subsection \<open>The quotes of a fragment are closed\<close>

text \<open>
  Text without a quote leaves the reading where it is; a rendered literal, and a list of
  them, is read from its opening quote to its closing one, provided that no quote follows.
\<close>

lemma scan_plain: "sq \<notin> set a \<Longrightarrow> quote_scan False (a @ b) = quote_scan False b"
  by (induction a) auto

lemma scan_body:
  "no_quote_next b \<Longrightarrow> quote_scan True (escape_quotes s @ sq # b) = quote_scan False b"
proof (induction s)
  case Nil
  then show ?case by (cases b) (auto simp: no_quote_next_def)
next
  case (Cons c cs)
  show ?case
  proof (cases "c = sq")
    case True
    with Cons show ?thesis by simp
  next
    case False
    obtain x xs where "escape_quotes cs @ sq # b = x # xs"
      by (cases "escape_quotes cs @ sq # b") auto
    with False Cons show ?thesis by simp
  qed
qed

lemma scan_literal:
  "no_quote_next b \<Longrightarrow> quote_scan False (sqlStringLiteral v @ b) = quote_scan False b"
  by (simp add: sqlStringLiteral_def scan_body) (simp add: sq_def)

lemma scan_literals:
  "no_quote_next b \<Longrightarrow>
   quote_scan False (join '', '' (map sqlStringLiteral vs) @ b) = quote_scan False b"
proof (induction vs rule: induct_list012)
  case 1
  then show ?case by simp
next
  case (2 v)
  then show ?case by (simp add: scan_literal)
next
  case (3 v w ws)
  have "no_quote_next ('', '' @ join '', '' (map sqlStringLiteral (w # ws)) @ b)"
    by (simp add: no_quote_next_def sq_def)
  from scan_literal [OF this, of v] 3 show ?case
    by (simp add: sq_def)
qed

text \<open>A number is rendered without a quote.\<close>

lemma digit_no_quote: "k < 10 \<Longrightarrow> sq \<noteq> digit_chars ! k"
proof -
  assume "k < 10"
  then have "k < length digit_chars"
    by (simp add: digit_chars_def)
  then have "digit_chars ! k \<in> set digit_chars"
    by (rule nth_mem)
  moreover have "sq \<notin> set digit_chars"
    by (simp add: digit_chars_def sq_def)
  ultimately show ?thesis by auto
qed

lemma digits_no_quote: "sq \<notin> set (digits n)"
proof (induction n rule: digits.induct)
  case (1 n)
  show ?case
  proof (cases "n < 10")
    case True
    then have "nat n < 10" by simp
    with True show ?thesis
      by (subst digits.simps) (simp add: digit_no_quote)
  next
    case False
    have "nat (n mod 10) < 10" by simp
    with False 1 show ?thesis
      by (subst digits.simps) (simp add: digit_no_quote)
  qed
qed

lemma format_no_quote: "sq \<notin> set s \<Longrightarrow> sq \<notin> set (format_digits s n)"
  using digits_no_quote
  by (auto simp: format_digits_def Let_def sq_def dest: in_set_takeD in_set_dropD)

lemma pos_no_quote: "sq \<notin> set (pos_to_string r)"
proof -
  have "sq \<notin> set (take k (digits m))" for k m
    using digits_no_quote [of m] by (auto dest: in_set_takeD)
  then show ?thesis
    by (simp add: pos_to_string_def Let_def case_prod_beta format_no_quote)
qed

lemma number_no_quote: "sq \<notin> set (numToString n)"
  using pos_no_quote by (cases n) (auto simp: sq_def)

lemmas scan_plain_chr = scan_plain [unfolded sq_def]

lemmas number_no_quote_chr = number_no_quote [unfolded sq_def]

text \<open>
  Every branch of the two compilers: a fragment of a column whose name has no quote is
  read from outside a literal to outside a literal.
\<close>

lemma closes_simps [simp]:
  "closes b None" "closes b (Some p) = (quote_scan False (p @ b) = quote_scan False b)"
  by (simp_all add: closes_def)

lemma freetext_closes:
  assumes "sq \<notin> set c" and "no_quote_next b"
  shows "closes b (freetext_predicate (''`'' @ c @ ''`'') m vs)"
  using assms
  by (simp add: freetext_predicate_def Let_def sq_def scan_plain_chr scan_literal no_quote_next_def)

lemma date_token_closes:
  assumes "sq \<notin> set c"
  shows "closes b (date_token_predicate (''DATE('' @ (''`'' @ c @ ''`'') @ '')'') t)"
  using assms
  by (simp add: date_token_predicate_def sq_def scan_plain_chr)

lemma def_fragment_closes:
  assumes "sq \<notin> set c" and "no_quote_next b"
  shows "case buildPredicateFromDef c d of Inl e \<Rightarrow> True | Inr pred \<Rightarrow> closes b pred"
proof -
  have "\<And>m vs. closes b (freetext_predicate (''`'' @ c @ ''`'') m vs)"
    using assms by (rule freetext_closes)
  with assms show ?thesis
    by (simp add: buildPredicateFromDef_def buildEmptyNotEmpty_def Let_def sq_def scan_plain_chr
        scan_literal scan_literals number_no_quote_chr no_quote_next_def split: sum.splits)
qed

lemma user_fragment_closes:
  assumes "sq \<notin> set c" and "no_quote_next b"
  shows "case buildPredicateFromUser c d ft of Inl e \<Rightarrow> True | Inr pred \<Rightarrow> closes b pred"
proof -
  have "\<And>m vs. closes b (freetext_predicate (''`'' @ c @ ''`'') m vs)"
    using assms by (rule freetext_closes)
  moreover have "\<And>t. closes b (date_token_predicate (''DATE('' @ (''`'' @ c @ ''`'') @ '')'') t)"
    using assms(1) by (rule date_token_closes)
  ultimately show ?thesis
    using assms
    by (simp add: buildPredicateFromUser_def buildEmptyNotEmpty_def Let_def sq_def scan_plain_chr
        scan_literal scan_literals number_no_quote_chr no_quote_next_def split: sum.splits)
qed

lemma def_fragment_closed:
  assumes "sq \<notin> set c" and "buildPredicateFromDef c d = Inr (Some p)"
  shows "quotes_closed p"
  using def_fragment_closes [OF assms(1), of "[]" d] assms(2)
  by (simp add: quotes_closed_def no_quote_next_def)

lemma user_fragment_closed:
  assumes "sq \<notin> set c" and "buildPredicateFromUser c d ft = Inr (Some p)"
  shows "quotes_closed p"
  using user_fragment_closes [OF assms(1), of "[]" d ft] assms(2)
  by (simp add: quotes_closed_def no_quote_next_def)

subsection \<open>The quoting of literals\<close>

text \<open>
  C10. A literal is rendered by \<open>sqlStringLiteral\<close>: null and undefined as the keyword
  \<open>NULL\<close>, any other value as its string form between single quotes, with every single
  quote of it doubled. So the quotes of the body stand in pairs, none is unescaped, and
  the body determines the string. The \<open>LIST\<close> branch of either compiler embeds each of
  its values this way. In every fragment that either compiler produces for a column whose
  name has no quote, whatever the definition, the quotes are closed: each literal of it
  ends where its rendering ends. (Numbers and truth values are not quoted: they are
  embedded as \<open>Number\<close> renders them and as \<open>TRUE\<close> or \<open>FALSE\<close>, without a quote.)
\<close>

theorem sqlStringLiteral_quoting:
  "sqlStringLiteral JNull = ''NULL'' \<and> sqlStringLiteral JUndefined = ''NULL''
   \<and> (v \<noteq> JNull \<and> v \<noteq> JUndefined \<longrightarrow>
        sqlStringLiteral v = [sq] @ escape_quotes (toStr v) @ [sq]
        \<and> quotes_paired (escape_quotes (toStr v))
        \<and> unescape_quotes (escape_quotes (toStr v)) = Some (toStr v))
   \<and> (def_type d = Inr ''LIST'' \<and> values_of d \<noteq> []
        \<and> def_modality d \<notin> set empty_modalities \<union> set not_empty_modalities \<longrightarrow>
        buildPredicateFromDef c d =
          Inr (Some (''`'' @ c @ ''` IN ('' @ join '', '' (map sqlStringLiteral (values_of d)) @ '')'')))
   \<and> (user_type u ft = Inr ''LIST'' \<and> values_of u \<noteq> []
        \<and> values_of u \<noteq> [JStr ''Empty''] \<and> values_of u \<noteq> [JStr ''Not Empty'']
        \<and> def_modality u \<notin> set empty_modalities \<union> set not_empty_modalities \<longrightarrow>
        buildPredicateFromUser c u ft =
          Inr (Some (''`'' @ c @ ''` IN ('' @ join '', '' (map sqlStringLiteral (values_of u)) @ '')'')))
   \<and> (sq \<notin> set c \<and> buildPredicateFromDef c d = Inr (Some p) \<longrightarrow> quotes_closed p)
   \<and> (sq \<notin> set c \<and> buildPredicateFromUser c u ft = Inr (Some p') \<longrightarrow> quotes_closed p')"
  using list_branch_def [of d c] list_branch_user [of u ft c]
    def_fragment_closed [of c d p] user_fragment_closed [of c u ft p']
  by (simp add: sqlStringLiteral_def quotes_paired_escape unescape_escape)

theorem sqlStringLiteral_quoting_witness:
  "sqlStringLiteral (JStr (''it'' @ [sq] @ ''s'')) = [sq] @ ''it'' @ [sq, sq] @ ''s'' @ [sq]
   \<and> quotes_paired (''it'' @ [sq, sq] @ ''s'')
   \<and> unescape_quotes (''it'' @ [sq, sq] @ ''s'') = Some (''it'' @ [sq] @ ''s'')
   \<and> buildPredicateFromDef ''status''
        (JObj [(''type'', JStr ''LIST''), (''values'', JArr [JStr (''it'' @ [sq] @ ''s''), JNull])])
      = Inr (Some (''`status` IN ('' @ [sq] @ ''it'' @ [sq, sq] @ ''s'' @ [sq] @ '', NULL)''))
   \<and> buildPredicateFromUser ''status''
        (JObj [(''values'', JArr [JStr (''it'' @ [sq] @ ''s''), JNull])]) ''list''
      = Inr (Some (''`status` IN ('' @ [sq] @ ''it'' @ [sq, sq] @ ''s'' @ [sq] @ '', NULL)''))
   \<and> quotes_closed (''`status` IN ('' @ [sq] @ ''it'' @ [sq, sq] @ ''s'' @ [sq] @ '', NULL)'')"
proof -
  let ?d = "JObj [(''type'', JStr ''LIST''), (''values'', JArr [JStr (''it'' @ [sq] @ ''s''), JNull])]"
  let ?u = "JObj [(''values'', JArr [JStr (''it'' @ [sq] @ ''s''), JNull])]"
  let ?p = "''`status` IN ('' @ [sq] @ ''it'' @ [sq, sq] @ ''s'' @ [sq] @ '', NULL)''"
  have t: "def_type ?d = Inr ''LIST''" "user_type ?u ''list'' = Inr ''LIST''"
    by (simp_all add: def_type_def user_type_def get_prop_def or_else_def call_toUpperCase_def
        toUpperCase_def lowers_def uppers_def)
  have m: "def_modality ?d \<notin> set empty_modalities \<union> set not_empty_modalities"
    "def_modality ?u \<notin> set empty_modalities \<union> set not_empty_modalities"
    by (simp_all add: def_modality_def get_prop_def normalizeModality_def empty_modalities_def
        not_empty_modalities_def)
  have v: "values_of ?d = [JStr (''it'' @ [sq] @ ''s''), JNull]"
    "values_of ?u = [JStr (''it'' @ [sq] @ ''s''), JNull]"
    by (simp_all add: values_of_def get_prop_def)
  have e: "escape_quotes (''it'' @ [sq] @ ''s'') = ''it'' @ [sq, sq] @ ''s''"
    by (simp add: sq_def)
  have c: "sq \<notin> set ''status''"
    by (simp add: sq_def)
  show ?thesis
    using sqlStringLiteral_quoting
            [of "JStr (''it'' @ [sq] @ ''s'')" ?d "''status''" ?u "''list''" ?p ?p] t m v e c
    by (simp add: sqlStringLiteral_def sq_def)
qed

subsection \<open>The option list of a column is never empty\<close>

text \<open>
  C7. Every entry that option discovery returns has a non-empty option list: an entry of
  \<open>generateFilterConfig\<close> belongs to a column of the schema that is not a record, and
  its options are what the column's own rules produced or, when they produced nothing,
  exactly \<open>['Empty', 'Not Empty']\<close>; an entry of \<open>generateFilterConfigFromSchema\<close> has
  options as well.
\<close>

theorem options_never_empty:
  "(e \<in> set (fst (generateFilterConfig q p d t fs)) \<longrightarrow>
      options e \<noteq> [] \<and>
      (\<exists>f \<in> set fs. field_type f \<noteq> ''RECORD'' \<and> columnName e = field_name f \<and>
         options e =
           (if d_options (try_discover q (qualified_of p d t) (field_name f) (toUpperCase (field_type f))) = []
            then [JStr ''Empty'', JStr ''Not Empty'']
            else d_options (try_discover q (qualified_of p d t) (field_name f) (toUpperCase (field_type f))))))
   \<and> (e \<in> set (generateFilterConfigFromSchema fs) \<longrightarrow> options e \<noteq> [])"
proof (intro conjI impI)
  assume e: "e \<in> set (fst (generateFilterConfig q p d t fs))"
  then obtain f where f: "f \<in> set fs" "field_type f \<noteq> ''RECORD''"
    and ef: "e = fst (column_entry q (qualified_of p d t) f)"
    by (auto simp: generateFilterConfig_def config_loop_map qualified_of_def)
  show "options e \<noteq> []"
    unfolding ef column_entry_options by simp
  show "\<exists>f \<in> set fs. field_type f \<noteq> ''RECORD'' \<and> columnName e = field_name f \<and>
         options e =
           (if d_options (try_discover q (qualified_of p d t) (field_name f) (toUpperCase (field_type f))) = []
            then [JStr ''Empty'', JStr ''Not Empty'']
            else d_options (try_discover q (qualified_of p d t) (field_name f) (toUpperCase (field_type f))))"
    using f ef column_entry_options column_entry_name by blast
next
  assume "e \<in> set (generateFilterConfigFromSchema fs)"
  then show "options e \<noteq> []"
    by (auto simp: generateFilterConfigFromSchema_def schema_loop_map schema_entry_options)
qed

theorem options_never_empty_witness:
  "\<lparr> columnName = ''name'', filterType = ''FREETEXT'', options = [JStr ''Empty'', JStr ''Not Empty''] \<rparr>
     \<in> set (fst (generateFilterConfig unavailable_store ''p'' ''d'' ''t''
                   [\<lparr> field_name = ''name'', field_type = ''STRING'' \<rparr>]))
   \<and> \<lparr> columnName = ''name'', filterType = ''FREETEXT'', options = [JStr ''Empty'', JStr ''Not Empty''] \<rparr>
     \<in> set (generateFilterConfigFromSchema [\<lparr> field_name = ''name'', field_type = ''STRING'' \<rparr>])
   \<and> options \<lparr> columnName = ''name'', filterType = ''FREETEXT'',
                options = [JStr ''Empty'', JStr ''Not Empty''] \<rparr> \<noteq> []"
proof -
  let ?e = "\<lparr> columnName = ''name'', filterType = ''FREETEXT'',
              options = [JStr ''Empty'', JStr ''Not Empty''] \<rparr>"
  let ?fs = "[\<lparr> field_name = ''name'', field_type = ''STRING'' \<rparr>]"
  have a: "?e \<in> set (fst (generateFilterConfig unavailable_store ''p'' ''d'' ''t'' ?fs))"
    by code_simp
  have b: "?e \<in> set (generateFilterConfigFromSchema ?fs)"
    by code_simp
  from options_never_empty [of ?e unavailable_store "''p''" "''d''" "''t''" ?fs] a b
  show ?thesis by simp
qed

subsection \<open>An unknown page\<close>

text \<open>
  C9. When the page identifier of a request resolves to no page configuration, the
  handler answers at once with status 400 and \<open>{ ok: false, error: 'Invalid
  pageIdentifier' }\<close>, and makes no call to the store. The lookup finds nothing for every
  identifier but the two pages of the catalog and the names that every object inherits.
\<close>

theorem unknown_page_no_store_call:
  "(getPageConfiguration (get_prop (or_else body (JObj [])) ''pageIdentifier'') = None \<longrightarrow>
      page_data bigquery body = (ErrorResponse 400 ''Invalid pageIdentifier'', []))
   \<and> (getPageConfiguration pid = None) =
       (toStr pid \<notin> set [''leads_view'', ''sales_report'']
        \<and> toStr pid \<notin> set object_prototype_names)"
proof (intro conjI impI)
  assume "getPageConfiguration (get_prop (or_else body (JObj [])) ''pageIdentifier'') = None"
  then show "page_data bigquery body = (ErrorResponse 400 ''Invalid pageIdentifier'', [])"
    by (simp add: page_data_def Let_def)
next
  show "(getPageConfiguration pid = None) =
       (toStr pid \<notin> set [''leads_view'', ''sales_report'']
        \<and> toStr pid \<notin> set object_prototype_names)"
    by (auto simp: getPageConfiguration_def pageDefinitions_def split: option.splits if_splits)
qed

theorem unknown_page_no_store_call_witness:
  "getPageConfiguration (get_prop (or_else (JObj [(''pageIdentifier'', JStr ''orders_view'')]) (JObj []))
                           ''pageIdentifier'') = None
   \<and> page_data (Some unavailable_client) (JObj [(''pageIdentifier'', JStr ''orders_view'')])
       = (ErrorResponse 400 ''Invalid pageIdentifier'', [])"
proof -
  have h: "getPageConfiguration
             (get_prop (or_else (JObj [(''pageIdentifier'', JStr ''orders_view'')]) (JObj []))
                ''pageIdentifier'') = None"
    by code_simp
  from unknown_page_no_store_call
         [of "JObj [(''pageIdentifier'', JStr ''orders_view'')]" "Some unavailable_client",
          THEN conjunct1] h
  show ?thesis by simp
qed

subsection \<open>The literal tokens \<open>Empty\<close> and \<open>Not Empty\<close>\<close>

text \<open>
  C6. A user filter definition whose values are exactly \<open>['Empty']\<close> compiles to
  "the column is null or its text cast is the empty string", and one whose values are
  exactly \<open>['Not Empty']\<close> to the negation, whatever the type of the definition and of
  the column. A saved filter definition has no such shortcut: with those values, and a
  modality that does not itself ask for empty or not empty, it compiles to neither
  predicate.
\<close>

theorem empty_token_shortcut:
  "(user_type d ft = Inr ty \<and> values_of d = [JStr ''Empty''] \<longrightarrow>
      buildPredicateFromUser c d ft =
        Inr (Some (''(`'' @ c @ ''` IS NULL OR CAST(`'' @ c @ ''` AS STRING) = '' @ [sq, sq] @ '')'')))
   \<and> (user_type d' ft' = Inr ty' \<and> values_of d' = [JStr ''Not Empty''] \<longrightarrow>
      buildPredicateFromUser c d' ft' =
        Inr (Some (''(NOT (`'' @ c @ ''` IS NULL OR CAST(`'' @ c @ ''` AS STRING) = '' @ [sq, sq] @ ''))'')))
   \<and> (def_type s = Inr sty \<and> (values_of s = [JStr ''Empty''] \<or> values_of s = [JStr ''Not Empty''])
        \<and> def_modality s \<notin> set empty_modalities \<union> set not_empty_modalities \<longrightarrow>
      buildPredicateFromDef c s \<noteq> Inr (Some (empty_pred (buildEmptyNotEmpty c)))
      \<and> buildPredicateFromDef c s \<noteq> Inr (Some (notEmpty_pred (buildEmptyNotEmpty c))))"
proof (intro conjI impI)
  assume "user_type d ft = Inr ty \<and> values_of d = [JStr ''Empty'']"
  then show "buildPredicateFromUser c d ft =
        Inr (Some (''(`'' @ c @ ''` IS NULL OR CAST(`'' @ c @ ''` AS STRING) = '' @ [sq, sq] @ '')''))"
    by (simp add: buildPredicateFromUser_def user_type_def elem_at_def buildEmptyNotEmpty_def Let_def)
next
  assume "user_type d' ft' = Inr ty' \<and> values_of d' = [JStr ''Not Empty'']"
  then show "buildPredicateFromUser c d' ft' =
        Inr (Some (''(NOT (`'' @ c @ ''` IS NULL OR CAST(`'' @ c @ ''` AS STRING) = '' @ [sq, sq] @ ''))''))"
    by (simp add: buildPredicateFromUser_def user_type_def elem_at_def buildEmptyNotEmpty_def Let_def)
next
  assume a: "def_type s = Inr sty \<and> (values_of s = [JStr ''Empty''] \<or> values_of s = [JStr ''Not Empty''])
        \<and> def_modality s \<notin> set empty_modalities \<union> set not_empty_modalities"
  then show "buildPredicateFromDef c s \<noteq> Inr (Some (empty_pred (buildEmptyNotEmpty c)))"
    by (auto simp: buildPredicateFromDef_def def_type_def def_modality_def elem_at_def
        buildEmptyNotEmpty_def freetext_predicate_def Let_def)
  from a show "buildPredicateFromDef c s \<noteq> Inr (Some (notEmpty_pred (buildEmptyNotEmpty c)))"
    by (auto simp: buildPredicateFromDef_def def_type_def def_modality_def elem_at_def
        buildEmptyNotEmpty_def freetext_predicate_def Let_def)
qed

theorem empty_token_shortcut_witness:
  "buildPredicateFromUser ''amount''
     (JObj [(''type'', JStr ''NUMERIC''), (''values'', JArr [JStr ''Empty''])]) ''INT64''
     = Inr (Some (''(`amount` IS NULL OR CAST(`amount` AS STRING) = '' @ [sq, sq] @ '')''))
   \<and> buildPredicateFromUser ''amount'' (JObj [(''values'', JArr [JStr ''Not Empty''])]) ''BOOL''
     = Inr (Some (''(NOT (`amount` IS NULL OR CAST(`amount` AS STRING) = '' @ [sq, sq] @ ''))''))
   \<and> buildPredicateFromDef ''amount''
       (JObj [(''type'', JStr ''LIST''), (''values'', JArr [JStr ''Empty''])])
     \<noteq> Inr (Some (empty_pred (buildEmptyNotEmpty ''amount'')))"
proof -
  let ?d = "JObj [(''type'', JStr ''NUMERIC''), (''values'', JArr [JStr ''Empty''])]"
  let ?d' = "JObj [(''values'', JArr [JStr ''Not Empty''])]"
  let ?s = "JObj [(''type'', JStr ''LIST''), (''values'', JArr [JStr ''Empty''])]"
  have 1: "user_type ?d ''INT64'' = Inr ''NUMERIC'' \<and> values_of ?d = [JStr ''Empty'']"
    by code_simp
  have 2: "user_type ?d' ''BOOL'' = Inr ''BOOL'' \<and> values_of ?d' = [JStr ''Not Empty'']"
    by code_simp
  have 3: "def_type ?s = Inr ''LIST'' \<and> (values_of ?s = [JStr ''Empty''] \<or> values_of ?s = [JStr ''Not Empty''])
        \<and> def_modality ?s \<notin> set empty_modalities \<union> set not_empty_modalities"
    by code_simp
  from empty_token_shortcut [of ?d "''INT64''" "''NUMERIC''" "''amount''" ?d' "''BOOL''" "''BOOL''"
      ?s "''LIST''"] 1 2 3
  show ?thesis by simp
qed

subsection \<open>Pagination arithmetic\<close>






subsection \<open>Page size and offset\<close>




subsection \<open>The numeric branches\<close>






text \<open>
  C4. The compiler of user definitions ignores the modality of a numeric definition: for
  \<open>greater than\<close> it emits an equality, where the compiler of saved definitions emits
  the strict comparison for the same definition.
\<close>

theorem numeric_user_modality_ignored:
  "buildPredicateFromUser ''amount''
     (JObj [(''type'', JStr ''NUMERIC''), (''modality'', JStr ''greater than''),
            (''values'', JArr [JStr ''5''])]) ''INT64''
   = Inr (Some ''`amount` = 5'')
   \<and> buildPredicateFromDef ''amount''
     (JObj [(''type'', JStr ''NUMERIC''), (''modality'', JStr ''greater than''),
            (''values'', JArr [JStr ''5''])])
   = Inr (Some ''`amount` > 5'')"
  by code_simp

subsection \<open>The WHERE clause is the conjunction of all fragments\<close>

lemma freetext_nonempty: "freetext_predicate i m vs = Some p \<Longrightarrow> p \<noteq> []"
  by (auto simp: freetext_predicate_def Let_def split: if_splits)

lemma date_token_nonempty: "date_token_predicate colDate t = Some p \<Longrightarrow> p \<noteq> []"
  by (auto simp: date_token_predicate_def split: if_splits)

lemma def_fragment_nonempty: "buildPredicateFromDef c d = Inr (Some p) \<Longrightarrow> p \<noteq> []"
  by (auto simp: buildPredicateFromDef_def buildEmptyNotEmpty_def Let_def
      split: sum.splits if_splits dest: freetext_nonempty)

lemma user_fragment_nonempty: "buildPredicateFromUser c d ft = Inr (Some p) \<Longrightarrow> p \<noteq> []"
  by (auto simp: buildPredicateFromUser_def buildEmptyNotEmpty_def Let_def
      split: sum.splits if_splits dest: freetext_nonempty date_token_nonempty)

lemma saved_loop_fragments:
  "saved_loop types es acc = Inr cs \<Longrightarrow> cs = acc @ saved_fragments types es"
proof (induction es arbitrary: acc)
  case Nil
  then show ?case by (simp add: saved_fragments_def)
next
  case (Cons e es)
  obtain col d where e: "e = (col, d)" by (cases e)
  show ?case
  proof (cases "types col = None")
    case True
    with Cons e show ?thesis by (simp add: saved_fragments_def)
  next
    case False
    with Cons.prems e obtain pred where
      b: "buildPredicateFromDef col (or_else d (JObj [])) = Inr pred"
      and l: "saved_loop types es (push_pred acc pred) = Inr cs"
      by (auto split: sum.splits)
    from Cons.IH [OF l] have cs: "cs = push_pred acc pred @ saved_fragments types es" .
    show ?thesis
    proof (cases pred)
      case None
      with cs b False e show ?thesis by (simp add: push_pred_def saved_fragments_def)
    next
      case (Some p)
      with b have "p \<noteq> []" by (auto dest: def_fragment_nonempty)
      with cs b False e Some show ?thesis by (simp add: push_pred_def saved_fragments_def)
    qed
  qed
qed

lemma user_loop_fragments:
  "user_loop types es acc = Inr cs \<Longrightarrow> cs = acc @ user_fragments types es"
proof (induction es arbitrary: acc)
  case Nil
  then show ?case by (simp add: user_fragments_def)
next
  case (Cons e es)
  obtain col d where e: "e = (col, d)" by (cases e)
  show ?case
  proof (cases "types col")
    case None
    with Cons e show ?thesis by (simp add: user_fragments_def)
  next
    case (Some ft)
    with Cons.prems e obtain pred where
      b: "buildPredicateFromUser col (or_else d (JObj [])) ft = Inr pred"
      and l: "user_loop types es (push_pred acc pred) = Inr cs"
      by (auto split: sum.splits)
    from Cons.IH [OF l] have cs: "cs = push_pred acc pred @ user_fragments types es" .
    show ?thesis
    proof (cases pred)
      case None
      with cs b Some e show ?thesis by (simp add: push_pred_def user_fragments_def)
    next
      case (Some p)
      with b have "p \<noteq> []" by (auto dest: user_fragment_nonempty)
      with cs b \<open>types col = Some ft\<close> e Some show ?thesis
        by (simp add: push_pred_def user_fragments_def)
    qed
  qed
qed

lemma whereClauses_fragments:
  assumes "whereClauses_of fs saved user = Inr cs"
  shows "cs = saved_fragments (fieldTypeByName fs) (entries (or_else saved (JObj [])))
              @ user_fragments (fieldTypeByName fs) (entries (or_else user (JObj [])))"
proof -
  from assms obtain cs0 where
    s: "saved_loop (fieldTypeByName fs) (entries (or_else saved (JObj []))) [] = Inr cs0"
    and u: "user_loop (fieldTypeByName fs) (entries (or_else user (JObj []))) cs0 = Inr cs"
    by (auto simp: whereClauses_of_def split: sum.splits)
  from saved_loop_fragments [OF s] user_loop_fragments [OF u] show ?thesis by simp
qed

lemma saved_fragment_member:
  "(col, d) \<in> set es \<Longrightarrow> types col \<noteq> None \<Longrightarrow>
   buildPredicateFromDef col (or_else d (JObj [])) = Inr (Some p) \<Longrightarrow> p \<in> set (saved_fragments types es)"
  by (force simp: saved_fragments_def)

lemma user_fragment_member:
  "(col, d) \<in> set es \<Longrightarrow> types col = Some ft \<Longrightarrow>
   buildPredicateFromUser col (or_else d (JObj [])) ft = Inr (Some p) \<Longrightarrow> p \<in> set (user_fragments types es)"
  by (force simp: user_fragments_def)

lemma literal_string_quoted: "literal_string (sqlStringLiteral (JStr s)) = Some s"
  by (simp add: literal_string_def sqlStringLiteral_def unescape_escape)

lemma contradictory_membership:
  "a \<noteq> b \<Longrightarrow> \<not> (in_holds v [sqlStringLiteral (JStr a)] \<and> in_holds v [sqlStringLiteral (JStr b)])"
  by (auto simp: in_holds_def literal_string_quoted split: option.splits)

lemma whereSql_of_join:
  "whereSql_of cs = (if cs = [] then [] else ''WHERE '' @ join '' AND '' cs)"
  by (simp add: whereSql_of_def)

lemma run_page_where:
  assumes "run_page bq cfg sfi uf pg = (Payload pl, calls)"
  shows "\<exists>fs cs. bq_getMetadata bq (datasetId cfg) (tableId cfg) = Inr fs
           \<and> whereClauses_of fs (savedFilterDefinition_of cfg sfi) uf = Inr cs
           \<and> Query (dataQuery_of
                     (qualified_of (bq_projectId bq) (toStr (datasetId cfg)) (toStr (tableId cfg)))
                     (whereSql_of cs)
                     (limit_of (get_prop pg ''pageSize''))
                     (offset_of (get_prop pg ''page'') (limit_of (get_prop pg ''pageSize''))))
               \<in> set calls"
  using assms
  by (auto simp: run_page_def caught_def member_def qualified_of_def Let_def
      split: sum.splits prod.splits if_splits)

lemma list_def_saved:
  "buildPredicateFromDef c (or_else (list_def a) (JObj []))
     = Inr (Some (''`'' @ c @ ''` IN ('' @ sqlStringLiteral (JStr a) @ '')''))"
  by (simp add: list_def_def or_else_def buildPredicateFromDef_def call_toUpperCase_def
      get_prop_def upper_LIST normalizeModality_def empty_modalities_def not_empty_modalities_def
      date_types_def values_of_def Let_def)

lemma list_def_user:
  assumes "b \<noteq> ''Empty''" and "b \<noteq> ''Not Empty''"
  shows "buildPredicateFromUser c (or_else (list_def b) (JObj [])) ft
     = Inr (Some (''`'' @ c @ ''` IN ('' @ sqlStringLiteral (JStr b) @ '')''))"
  using assms
  by (simp add: list_def_def or_else_def buildPredicateFromUser_def call_toUpperCase_def
      get_prop_def upper_LIST normalizeModality_def empty_modalities_def not_empty_modalities_def
      date_types_def values_of_def elem_at_def Let_def)

lemma sql_literal_nonempty: "sqlStringLiteral v \<noteq> []"
  by (simp add: sqlStringLiteral_def)

lemma contradictory_where:
  assumes "fieldTypeByName fs c \<noteq> None" and "b \<noteq> ''Empty''" and "b \<noteq> ''Not Empty''"
  shows "whereClauses_of fs (JObj [(c, list_def a)]) (JObj [(c, list_def b)])
           = Inr [''`'' @ c @ ''` IN ('' @ sqlStringLiteral (JStr a) @ '')'',
                  ''`'' @ c @ ''` IN ('' @ sqlStringLiteral (JStr b) @ '')'']"
  using assms list_def_saved [of c a] list_def_user [of b c]
  by (auto simp: whereClauses_of_def entries_def or_else_def push_pred_def)

text \<open>
  C1. The clauses of a request are the fragments of the saved filter's definitions
  followed by those of the user's definitions, each compiled on its own, without those
  that compile to null (or name a column the schema does not have), and the WHERE clause
  joins them with \<open>AND\<close>. A saved and a user definition on one column both stay: with
  \<open>LIST\<close> definitions for two different values the clause asks for both memberships, which
  no row satisfies. The row query of an answered request carries this clause.
\<close>

theorem where_clause_conjunction:
  "(whereClauses_of fs saved user = Inr cs \<longrightarrow>
      cs = saved_fragments (fieldTypeByName fs) (entries (or_else saved (JObj [])))
           @ user_fragments (fieldTypeByName fs) (entries (or_else user (JObj [])))
      \<and> whereSql_of cs = (if cs = [] then [] else ''WHERE '' @ join '' AND '' cs)
      \<and> ((col, d1) \<in> set (entries (or_else saved (JObj [])))
           \<and> (col, d2) \<in> set (entries (or_else user (JObj [])))
           \<and> fieldTypeByName fs col = Some ft
           \<and> buildPredicateFromDef col (or_else d1 (JObj [])) = Inr (Some p1)
           \<and> buildPredicateFromUser col (or_else d2 (JObj [])) ft = Inr (Some p2) \<longrightarrow>
          p1 \<in> set cs \<and> p2 \<in> set cs))
   \<and> (fieldTypeByName fs' c \<noteq> None \<and> a \<noteq> b \<and> b \<noteq> ''Empty'' \<and> b \<noteq> ''Not Empty'' \<longrightarrow>
        whereClauses_of fs' (JObj [(c, list_def a)]) (JObj [(c, list_def b)])
          = Inr [''`'' @ c @ ''` IN ('' @ sqlStringLiteral (JStr a) @ '')'',
                 ''`'' @ c @ ''` IN ('' @ sqlStringLiteral (JStr b) @ '')'']
        \<and> whereSql_of [''`'' @ c @ ''` IN ('' @ sqlStringLiteral (JStr a) @ '')'',
                        ''`'' @ c @ ''` IN ('' @ sqlStringLiteral (JStr b) @ '')'']
          = ''WHERE `'' @ c @ ''` IN ('' @ sqlStringLiteral (JStr a)
            @ '') AND `'' @ c @ ''` IN ('' @ sqlStringLiteral (JStr b) @ '')''
        \<and> \<not> (in_holds v [sqlStringLiteral (JStr a)] \<and> in_holds v [sqlStringLiteral (JStr b)]))
   \<and> (page_data bigquery body = (Payload pl, calls) \<longrightarrow>
        (\<exists>bq cfg schemaFields clauses.
            bigquery = Some bq
            \<and> getPageConfiguration (get_prop (or_else body (JObj [])) ''pageIdentifier'') = Some cfg
            \<and> bq_getMetadata bq (datasetId cfg) (tableId cfg) = Inr schemaFields
            \<and> whereClauses_of schemaFields
                 (savedFilterDefinition_of cfg
                    (default_to (get_prop (or_else body (JObj [])) ''savedFilterIdentifier'') JNull))
                 (default_to (get_prop (or_else body (JObj [])) ''userFilters'') (JObj []))
               = Inr clauses
            \<and> (\<exists>tbl l off. Query (dataQuery_of tbl (whereSql_of clauses) l off) \<in> set calls)))"
proof (intro conjI impI)
  assume w: "whereClauses_of fs saved user = Inr cs"
  from whereClauses_fragments [OF w]
  show cs: "cs = saved_fragments (fieldTypeByName fs) (entries (or_else saved (JObj [])))
           @ user_fragments (fieldTypeByName fs) (entries (or_else user (JObj [])))" .
  show "whereSql_of cs = (if cs = [] then [] else ''WHERE '' @ join '' AND '' cs)"
    by (rule whereSql_of_join)
  assume m: "(col, d1) \<in> set (entries (or_else saved (JObj [])))
           \<and> (col, d2) \<in> set (entries (or_else user (JObj [])))
           \<and> fieldTypeByName fs col = Some ft
           \<and> buildPredicateFromDef col (or_else d1 (JObj [])) = Inr (Some p1)
           \<and> buildPredicateFromUser col (or_else d2 (JObj [])) ft = Inr (Some p2)"
  then have "p1 \<in> set (saved_fragments (fieldTypeByName fs) (entries (or_else saved (JObj []))))"
    by (intro saved_fragment_member [of col d1]) auto
  moreover from m
  have "p2 \<in> set (user_fragments (fieldTypeByName fs) (entries (or_else user (JObj []))))"
    by (intro user_fragment_member [of col d2 _ _ ft]) auto
  ultimately show "p1 \<in> set cs" and "p2 \<in> set cs"
    using cs by simp_all
next
  assume h: "fieldTypeByName fs' c \<noteq> None \<and> a \<noteq> b \<and> b \<noteq> ''Empty'' \<and> b \<noteq> ''Not Empty''"
  then show "whereClauses_of fs' (JObj [(c, list_def a)]) (JObj [(c, list_def b)])
          = Inr [''`'' @ c @ ''` IN ('' @ sqlStringLiteral (JStr a) @ '')'',
                 ''`'' @ c @ ''` IN ('' @ sqlStringLiteral (JStr b) @ '')'']"
    by (intro contradictory_where) auto
  show "whereSql_of [''`'' @ c @ ''` IN ('' @ sqlStringLiteral (JStr a) @ '')'',
                        ''`'' @ c @ ''` IN ('' @ sqlStringLiteral (JStr b) @ '')'']
          = ''WHERE `'' @ c @ ''` IN ('' @ sqlStringLiteral (JStr a)
            @ '') AND `'' @ c @ ''` IN ('' @ sqlStringLiteral (JStr b) @ '')''"
    by (simp add: whereSql_of_def)
  from h show "\<not> (in_holds v [sqlStringLiteral (JStr a)] \<and> in_holds v [sqlStringLiteral (JStr b)])"
    by (intro contradictory_membership) auto
next
  assume a: "page_data bigquery body = (Payload pl, calls)"
  then obtain cfg bq where
    b: "bigquery = Some bq"
    and g: "getPageConfiguration (get_prop (or_else body (JObj [])) ''pageIdentifier'') = Some cfg"
    and r: "run_page bq cfg (default_to (get_prop (or_else body (JObj [])) ''savedFilterIdentifier'') JNull)
          (default_to (get_prop (or_else body (JObj [])) ''userFilters'') (JObj []))
          (default_to (get_prop (or_else body (JObj [])) ''pagination'')
             (JObj [(''page'', JNum (Fin 1)), (''pageSize'', JNum (Fin 10))])) = (Payload pl, calls)"
    by (auto simp: page_data_def Let_def split: option.splits)
  from run_page_where [OF r] b g
  show "\<exists>bq cfg schemaFields clauses.
            bigquery = Some bq
            \<and> getPageConfiguration (get_prop (or_else body (JObj [])) ''pageIdentifier'') = Some cfg
            \<and> bq_getMetadata bq (datasetId cfg) (tableId cfg) = Inr schemaFields
            \<and> whereClauses_of schemaFields
                 (savedFilterDefinition_of cfg
                    (default_to (get_prop (or_else body (JObj [])) ''savedFilterIdentifier'') JNull))
                 (default_to (get_prop (or_else body (JObj [])) ''userFilters'') (JObj []))
               = Inr clauses
            \<and> (\<exists>tbl l off. Query (dataQuery_of tbl (whereSql_of clauses) l off) \<in> set calls)"
    by blast
qed

theorem where_clause_conjunction_witness:
  "whereClauses_of [\<lparr> field_name = ''status'', field_type = ''STRING'' \<rparr>]
       (JObj [(''status'', list_def ''active'')]) (JObj [(''status'', list_def ''pending'')])
     = Inr [''`status` IN ('' @ [sq] @ ''active'' @ [sq] @ '')'',
            ''`status` IN ('' @ [sq] @ ''pending'' @ [sq] @ '')'']
   \<and> whereSql_of [''`status` IN ('' @ [sq] @ ''active'' @ [sq] @ '')'',
                   ''`status` IN ('' @ [sq] @ ''pending'' @ [sq] @ '')'']
     = ''WHERE `status` IN ('' @ [sq] @ ''active'' @ [sq] @ '') AND `status` IN (''
       @ [sq] @ ''pending'' @ [sq] @ '')''
   \<and> \<not> (in_holds (Some ''active'') [[sq] @ ''active'' @ [sq]]
          \<and> in_holds (Some ''active'') [[sq] @ ''pending'' @ [sq]])
   \<and> is_payload (fst (page_data (Some leads_client) leads_request))
   \<and> Query (''SELECT * FROM `p.relata_schema.activity` WHERE LOWER(CAST(`name` AS STRING)) LIKE LOWER(''
             @ [sq] @ ''%ak%'' @ [sq] @ '') AND LOWER(CAST(`name` AS STRING)) = LOWER(''
             @ [sq] @ ''akshay'' @ [sq] @ '') LIMIT 10 OFFSET 0'')
       \<in> set (snd (page_data (Some leads_client) leads_request))
   \<and> (\<exists>clauses tbl l off.
         Query (dataQuery_of tbl (whereSql_of clauses) l off)
           \<in> set (snd (page_data (Some leads_client) leads_request)))"
proof -
  let ?fs = "[\<lparr> field_name = ''status'', field_type = ''STRING'' \<rparr>]"
  have k: "fieldTypeByName ?fs ''status'' \<noteq> None \<and> ''active'' \<noteq> ''pending''
           \<and> ''pending'' \<noteq> ''Empty'' \<and> ''pending'' \<noteq> ''Not Empty''"
    by code_simp
  have p: "is_payload (fst (page_data (Some leads_client) leads_request))"
    by code_simp
  have q: "Query (''SELECT * FROM `p.relata_schema.activity` WHERE LOWER(CAST(`name` AS STRING)) LIKE LOWER(''
             @ [sq] @ ''%ak%'' @ [sq] @ '') AND LOWER(CAST(`name` AS STRING)) = LOWER(''
             @ [sq] @ ''akshay'' @ [sq] @ '') LIMIT 10 OFFSET 0'')
       \<in> set (snd (page_data (Some leads_client) leads_request))"
    by code_simp
  from p obtain pl calls where
    r: "page_data (Some leads_client) leads_request = (Payload pl, calls)"
    by (cases "page_data (Some leads_client) leads_request";
        cases "fst (page_data (Some leads_client) leads_request)") auto
  note T = where_clause_conjunction
    [of ?fs "JObj [(''status'', list_def ''active'')]" "JObj [(''status'', list_def ''pending'')]"
        "[]" "''status''" JUndefined JUndefined "''STRING''" "[]" "[]"
        ?fs "''status''" "''active''" "''pending''" "Some ''active''"
        "Some leads_client" leads_request pl calls]
  have e: "sqlStringLiteral (JStr ''active'') = [sq] @ ''active'' @ [sq]"
    "sqlStringLiteral (JStr ''pending'') = [sq] @ ''pending'' @ [sq]"
    by (simp_all add: sqlStringLiteral_def sq_def)
  from T [THEN conjunct2, THEN conjunct1] k
  have c: "whereClauses_of ?fs (JObj [(''status'', list_def ''active'')])
             (JObj [(''status'', list_def ''pending'')])
           = Inr [''`status` IN ('' @ [sq] @ ''active'' @ [sq] @ '')'',
                  ''`status` IN ('' @ [sq] @ ''pending'' @ [sq] @ '')'']"
    and w: "whereSql_of [''`status` IN ('' @ [sq] @ ''active'' @ [sq] @ '')'',
                   ''`status` IN ('' @ [sq] @ ''pending'' @ [sq] @ '')'']
     = ''WHERE `status` IN ('' @ [sq] @ ''active'' @ [sq] @ '') AND `status` IN (''
       @ [sq] @ ''pending'' @ [sq] @ '')''"
    and n: "\<not> (in_holds (Some ''active'') [[sq] @ ''active'' @ [sq]]
          \<and> in_holds (Some ''active'') [[sq] @ ''pending'' @ [sq]])"
    by (simp_all add: e)
  from T [THEN conjunct2, THEN conjunct2] r
  have h: "\<exists>clauses tbl l off.
         Query (dataQuery_of tbl (whereSql_of clauses) l off)
           \<in> set (snd (page_data (Some leads_client) leads_request))"
    by auto
  from c w n p q h show ?thesis
    by blast
qed

subsection \<open>Option discovery for text columns\<close>

lemma try_discover_string:
  "try_discover q qual c ''STRING'' = discover_string q qual c"
  by (simp add: try_discover_def date_types_def numeric_types_def)

lemma string_list_entry:
  assumes "toUpperCase (field_type f) = ''STRING''"
    and "q (countQuery_of qual (field_name f)) = Inr (r # rs)"
    and "num_le (number_or_zero (get_prop (JObj r) ''c'')) (Fin 20)"
    and "q (listQuery_of qual (field_name f)) = Inr vals"
  shows "column_entry q qual f =
           (\<lparr> columnName = field_name f, filterType = ''LIST'',
              options = (if vals = [] then [JStr ''Empty'', JStr ''Not Empty'']
                         else option_values vals) \<rparr>,
            [countQuery_of qual (field_name f), listQuery_of qual (field_name f)])"
  using assms
  by (simp add: column_entry_def try_discover_string discover_string_def Let_def
      empty_options_def option_values_def)

lemma string_top_entry:
  assumes "toUpperCase (field_type f) = ''STRING''"
    and "q (countQuery_of qual (field_name f)) = Inr (r # rs)"
    and "\<not> num_le (number_or_zero (get_prop (JObj r) ''c'')) (Fin 20)"
    and "q (topQuery_of qual (field_name f)) = Inr vals"
  shows "column_entry q qual f =
           (\<lparr> columnName = field_name f, filterType = ''FREETEXT'',
              options = (if vals = [] then [JStr ''Empty'', JStr ''Not Empty'']
                         else option_values vals) \<rparr>,
            [countQuery_of qual (field_name f), topQuery_of qual (field_name f)])"
  using assms
  by (simp add: column_entry_def try_discover_string discover_string_def Let_def
      empty_options_def option_values_def)

lemma string_count_first:
  assumes "toUpperCase (field_type f) = ''STRING''"
  shows "\<exists>more. snd (column_entry q qual f) = countQuery_of qual (field_name f) # more"
  using assms
  by (simp add: column_entry_def try_discover_string discover_string_def Let_def
      split: sum.splits list.splits)

lemma string_count_failure:
  assumes "toUpperCase (field_type f) = ''STRING''"
    and "q (countQuery_of qual (field_name f)) = Inl e"
  shows "fst (column_entry q qual f) =
           \<lparr> columnName = field_name f, filterType = ''FREETEXT'',
             options = [JStr ''Empty'', JStr ''Not Empty''] \<rparr>"
  using assms
  by (simp add: column_entry_def try_discover_string discover_string_def Let_def empty_options_def)

lemma string_list_failure:
  assumes "toUpperCase (field_type f) = ''STRING''"
    and "q (countQuery_of qual (field_name f)) = Inr (r # rs)"
    and "num_le (number_or_zero (get_prop (JObj r) ''c'')) (Fin 20)"
    and "q (listQuery_of qual (field_name f)) = Inl e"
  shows "fst (column_entry q qual f) =
           \<lparr> columnName = field_name f, filterType = ''LIST'',
             options = [JStr ''Empty'', JStr ''Not Empty''] \<rparr>"
  using assms
  by (simp add: column_entry_def try_discover_string discover_string_def Let_def empty_options_def)

lemma string_top_failure:
  assumes "toUpperCase (field_type f) = ''STRING''"
    and "q (countQuery_of qual (field_name f)) = Inr (r # rs)"
    and "\<not> num_le (number_or_zero (get_prop (JObj r) ''c'')) (Fin 20)"
    and "q (topQuery_of qual (field_name f)) = Inl e"
  shows "fst (column_entry q qual f) =
           \<lparr> columnName = field_name f, filterType = ''FREETEXT'',
             options = [JStr ''Empty'', JStr ''Not Empty''] \<rparr>"
  using assms
  by (simp add: column_entry_def try_discover_string discover_string_def Let_def empty_options_def)

lemma boolean_entry:
  assumes "toUpperCase (field_type f) = ''BOOL'' \<or> toUpperCase (field_type f) = ''BOOLEAN''"
  shows "column_entry q qual f =
           (\<lparr> columnName = field_name f, filterType = ''BOOLEAN'',
              options = [JBool True, JBool False] \<rparr>, [])"
  using assms
  by (auto simp: column_entry_def try_discover_def date_types_def Let_def)

lemma discover_string_own_queries:
  assumes "q (countQuery_of qual c) = q' (countQuery_of qual c)"
    and "q (listQuery_of qual c) = q' (listQuery_of qual c)"
    and "q (topQuery_of qual c) = q' (topQuery_of qual c)"
  shows "discover_string q qual c = discover_string q' qual c"
  using assms
  by (auto simp: discover_string_def Let_def split: sum.splits list.splits)

lemma column_entry_own_queries:
  assumes "q (countQuery_of qual (field_name f)) = q' (countQuery_of qual (field_name f))"
    and "q (listQuery_of qual (field_name f)) = q' (listQuery_of qual (field_name f))"
    and "q (topQuery_of qual (field_name f)) = q' (topQuery_of qual (field_name f))"
  shows "column_entry q qual f = column_entry q' qual f"
proof -
  have same: "try_discover q qual (field_name f) t = try_discover q' qual (field_name f) t" for t
    using discover_string_own_queries [OF assms] by (auto simp: try_discover_def)
  show ?thesis
    unfolding column_entry_def Let_def same by (rule refl)
qed

lemma config_is_map:
  "fst (generateFilterConfig q p d t fs) =
     map (\<lambda>f. fst (column_entry q (qualified_of p d t) f)) (filter (\<lambda>f. field_type f \<noteq> ''RECORD'') fs)"
  by (simp add: generateFilterConfig_def config_loop_map qualified_of_def)

lemma string_is_no_record: "toUpperCase (field_type f) = ''STRING'' \<Longrightarrow> field_type f \<noteq> ''RECORD''"
  by (auto simp: toUpperCase_def lowers_def uppers_def)

text \<open>
  C2. For a \<open>STRING\<close> column, option discovery first sends the approximate distinct count
  query. When the count (\<open>Number(c) || 0\<close>) is at most 20 the column is a \<open>LIST\<close> and its
  options are the \<open>v\<close> values, in order, of the rows of the query for the distinct non-null
  values cast to text, sorted ascending and limited to 20; otherwise it is \<open>FREETEXT\<close> and
  its options are those of the query for the 10 most frequent non-null values, by
  descending count. (A query that returns no row leaves the fallback options of C7.) The
  entry is part of the configuration returned.
\<close>

theorem string_column_discovery:
  "(toUpperCase (field_type f) = ''STRING'' \<longrightarrow>
      (\<exists>more. snd (column_entry q qual f) = countQuery_of qual (field_name f) # more)
      \<and> (q (countQuery_of qual (field_name f)) = Inr (r # rs)
           \<and> num_le (number_or_zero (get_prop (JObj r) ''c'')) (Fin 20)
           \<and> q (listQuery_of qual (field_name f)) = Inr vals \<longrightarrow>
          column_entry q qual f =
            (\<lparr> columnName = field_name f, filterType = ''LIST'',
               options = (if vals = [] then [JStr ''Empty'', JStr ''Not Empty'']
                          else option_values vals) \<rparr>,
             [countQuery_of qual (field_name f), listQuery_of qual (field_name f)]))
      \<and> (q (countQuery_of qual (field_name f)) = Inr (r # rs)
           \<and> \<not> num_le (number_or_zero (get_prop (JObj r) ''c'')) (Fin 20)
           \<and> q (topQuery_of qual (field_name f)) = Inr vals \<longrightarrow>
          column_entry q qual f =
            (\<lparr> columnName = field_name f, filterType = ''FREETEXT'',
               options = (if vals = [] then [JStr ''Empty'', JStr ''Not Empty'']
                          else option_values vals) \<rparr>,
             [countQuery_of qual (field_name f), topQuery_of qual (field_name f)]))
      \<and> (f \<in> set fs \<longrightarrow>
          fst (column_entry q (qualified_of p d t) f) \<in> set (fst (generateFilterConfig q p d t fs))))
   \<and> countQuery_of qual c = ''SELECT APPROX_COUNT_DISTINCT(`'' @ c @ ''`) AS c FROM '' @ qual
   \<and> listQuery_of qual c =
       ''SELECT DISTINCT CAST(`'' @ c @ ''` AS STRING) AS v FROM '' @ qual
       @ '' WHERE `'' @ c @ ''` IS NOT NULL ORDER BY v LIMIT 20''
   \<and> topQuery_of qual c =
       ''SELECT CAST(`'' @ c @ ''` AS STRING) AS v, COUNT(1) AS c FROM '' @ qual
       @ '' WHERE `'' @ c @ ''` IS NOT NULL GROUP BY v ORDER BY c DESC LIMIT 10''"
proof (intro conjI impI)
  assume s: "toUpperCase (field_type f) = ''STRING''"
  show "\<exists>more. snd (column_entry q qual f) = countQuery_of qual (field_name f) # more"
    using s by (rule string_count_first)
  {
    assume "q (countQuery_of qual (field_name f)) = Inr (r # rs)
           \<and> num_le (number_or_zero (get_prop (JObj r) ''c'')) (Fin 20)
           \<and> q (listQuery_of qual (field_name f)) = Inr vals"
    then show "column_entry q qual f =
            (\<lparr> columnName = field_name f, filterType = ''LIST'',
               options = (if vals = [] then [JStr ''Empty'', JStr ''Not Empty'']
                          else option_values vals) \<rparr>,
             [countQuery_of qual (field_name f), listQuery_of qual (field_name f)])"
      using s by (intro string_list_entry) auto
  }
  {
    assume "q (countQuery_of qual (field_name f)) = Inr (r # rs)
           \<and> \<not> num_le (number_or_zero (get_prop (JObj r) ''c'')) (Fin 20)
           \<and> q (topQuery_of qual (field_name f)) = Inr vals"
    then show "column_entry q qual f =
            (\<lparr> columnName = field_name f, filterType = ''FREETEXT'',
               options = (if vals = [] then [JStr ''Empty'', JStr ''Not Empty'']
                          else option_values vals) \<rparr>,
             [countQuery_of qual (field_name f), topQuery_of qual (field_name f)])"
      using s by (intro string_top_entry) auto
  }
  {
    assume "f \<in> set fs"
    with string_is_no_record [OF s]
    show "fst (column_entry q (qualified_of p d t) f) \<in> set (fst (generateFilterConfig q p d t fs))"
      by (simp add: config_is_map)
  }
next
  show "countQuery_of qual c = ''SELECT APPROX_COUNT_DISTINCT(`'' @ c @ ''`) AS c FROM '' @ qual"
    by (simp add: countQuery_of_def)
  show "listQuery_of qual c =
       ''SELECT DISTINCT CAST(`'' @ c @ ''` AS STRING) AS v FROM '' @ qual
       @ '' WHERE `'' @ c @ ''` IS NOT NULL ORDER BY v LIMIT 20''"
    by (simp add: listQuery_of_def)
  show "topQuery_of qual c =
       ''SELECT CAST(`'' @ c @ ''` AS STRING) AS v, COUNT(1) AS c FROM '' @ qual
       @ '' WHERE `'' @ c @ ''` IS NOT NULL GROUP BY v ORDER BY c DESC LIMIT 10''"
    by (simp add: topQuery_of_def)
qed

theorem string_column_discovery_witness:
  "column_entry example_store ''`p.d.t`'' \<lparr> field_name = ''status'', field_type = ''STRING'' \<rparr>
     = (\<lparr> columnName = ''status'', filterType = ''LIST'',
          options = [JStr ''active'', JStr ''closed'', JStr ''pending''] \<rparr>,
        [countQuery_of ''`p.d.t`'' ''status'', listQuery_of ''`p.d.t`'' ''status''])
   \<and> column_entry example_store ''`p.d.t`'' \<lparr> field_name = ''city'', field_type = ''string'' \<rparr>
     = (\<lparr> columnName = ''city'', filterType = ''FREETEXT'',
          options = [JStr ''Pune'', JStr ''Delhi''] \<rparr>,
        [countQuery_of ''`p.d.t`'' ''city'', topQuery_of ''`p.d.t`'' ''city''])"
proof -
  let ?status = "\<lparr> field_name = ''status'', field_type = ''STRING'' \<rparr>"
  let ?city = "\<lparr> field_name = ''city'', field_type = ''string'' \<rparr>"
  let ?listed = "[[(''v'', JStr ''active'')], [(''v'', JStr ''closed'')], [(''v'', JStr ''pending'')]]"
  let ?top = "[[(''v'', JStr ''Pune''), (''c'', JNum (Fin 40))],
               [(''v'', JStr ''Delhi''), (''c'', JNum (Fin 31))]]"
  have s1: "toUpperCase (field_type ?status) = ''STRING''"
    by code_simp
  have s2: "example_store (countQuery_of ''`p.d.t`'' (field_name ?status)) = Inr ([(''c'', JNum (Fin 3))] # [])
      \<and> num_le (number_or_zero (get_prop (JObj [(''c'', JNum (Fin 3))]) ''c'')) (Fin 20)
      \<and> example_store (listQuery_of ''`p.d.t`'' (field_name ?status)) = Inr ?listed"
    by code_simp
  have c1: "toUpperCase (field_type ?city) = ''STRING''"
    by code_simp
  have c2: "example_store (countQuery_of ''`p.d.t`'' (field_name ?city)) = Inr ([(''c'', JNum (Fin 25))] # [])
      \<and> \<not> num_le (number_or_zero (get_prop (JObj [(''c'', JNum (Fin 25))]) ''c'')) (Fin 20)
      \<and> example_store (topQuery_of ''`p.d.t`'' (field_name ?city)) = Inr ?top"
    by code_simp
  have v: "option_values ?listed = [JStr ''active'', JStr ''closed'', JStr ''pending'']"
    "option_values ?top = [JStr ''Pune'', JStr ''Delhi'']"
    by (simp_all add: option_values_def get_prop_def)
  from string_column_discovery
         [where f = ?status and q = example_store and qual = "''`p.d.t`''"
            and r = "[(''c'', JNum (Fin 3))]" and rs = "[]" and vals = ?listed, THEN conjunct1] s1 s2
  have a: "column_entry example_store ''`p.d.t`'' ?status
     = (\<lparr> columnName = ''status'', filterType = ''LIST'',
          options = [JStr ''active'', JStr ''closed'', JStr ''pending''] \<rparr>,
        [countQuery_of ''`p.d.t`'' ''status'', listQuery_of ''`p.d.t`'' ''status''])"
    by (simp add: v)
  from string_column_discovery
         [where f = ?city and q = example_store and qual = "''`p.d.t`''"
            and r = "[(''c'', JNum (Fin 25))]" and rs = "[]" and vals = ?top, THEN conjunct1] c1 c2
  have b: "column_entry example_store ''`p.d.t`'' ?city
     = (\<lparr> columnName = ''city'', filterType = ''FREETEXT'',
          options = [JStr ''Pune'', JStr ''Delhi''] \<rparr>,
        [countQuery_of ''`p.d.t`'' ''city'', topQuery_of ''`p.d.t`'' ''city''])"
    by (simp add: v)
  from a b show ?thesis
    by blast
qed

text \<open>
  C5, as the code has it. When a discovery query of a text column fails, the column keeps
  the filter type assigned before that query: \<open>FREETEXT\<close> when the count query or the
  query for the most frequent values fails, \<open>LIST\<close> when the count was at most 20 and the
  query for the distinct values fails; its options are \<open>['Empty', 'Not Empty']\<close>. A boolean
  column sends no query and is \<open>BOOLEAN\<close>. The entry of a column depends on the store's
  answers to the column's own queries only, and the configuration has one entry for
  every column that is not a record, whatever failed.
\<close>

theorem discovery_failure_is_local:
  "(toUpperCase (field_type f) = ''STRING'' \<longrightarrow>
      (q (countQuery_of qual (field_name f)) = Inl e \<longrightarrow>
         fst (column_entry q qual f) =
           \<lparr> columnName = field_name f, filterType = ''FREETEXT'',
             options = [JStr ''Empty'', JStr ''Not Empty''] \<rparr>)
      \<and> (q (countQuery_of qual (field_name f)) = Inr (r # rs)
           \<and> \<not> num_le (number_or_zero (get_prop (JObj r) ''c'')) (Fin 20)
           \<and> q (topQuery_of qual (field_name f)) = Inl e \<longrightarrow>
         fst (column_entry q qual f) =
           \<lparr> columnName = field_name f, filterType = ''FREETEXT'',
             options = [JStr ''Empty'', JStr ''Not Empty''] \<rparr>)
      \<and> (q (countQuery_of qual (field_name f)) = Inr (r # rs)
           \<and> num_le (number_or_zero (get_prop (JObj r) ''c'')) (Fin 20)
           \<and> q (listQuery_of qual (field_name f)) = Inl e \<longrightarrow>
         fst (column_entry q qual f) =
           \<lparr> columnName = field_name f, filterType = ''LIST'',
             options = [JStr ''Empty'', JStr ''Not Empty''] \<rparr>))
   \<and> (toUpperCase (field_type f) = ''BOOL'' \<or> toUpperCase (field_type f) = ''BOOLEAN'' \<longrightarrow>
        column_entry q qual f =
          (\<lparr> columnName = field_name f, filterType = ''BOOLEAN'',
             options = [JBool True, JBool False] \<rparr>, []))
   \<and> (q (countQuery_of qual (field_name f)) = q' (countQuery_of qual (field_name f))
        \<and> q (listQuery_of qual (field_name f)) = q' (listQuery_of qual (field_name f))
        \<and> q (topQuery_of qual (field_name f)) = q' (topQuery_of qual (field_name f)) \<longrightarrow>
        column_entry q qual f = column_entry q' qual f)
   \<and> fst (generateFilterConfig q p d t fs) =
       map (\<lambda>f. fst (column_entry q (qualified_of p d t) f))
           (filter (\<lambda>f. field_type f \<noteq> ''RECORD'') fs)"
proof (intro conjI impI)
  assume s: "toUpperCase (field_type f) = ''STRING''"
  {
    assume "q (countQuery_of qual (field_name f)) = Inl e"
    with s show "fst (column_entry q qual f) =
           \<lparr> columnName = field_name f, filterType = ''FREETEXT'',
             options = [JStr ''Empty'', JStr ''Not Empty''] \<rparr>"
      by (rule string_count_failure)
  }
  {
    assume "q (countQuery_of qual (field_name f)) = Inr (r # rs)
           \<and> \<not> num_le (number_or_zero (get_prop (JObj r) ''c'')) (Fin 20)
           \<and> q (topQuery_of qual (field_name f)) = Inl e"
    then show "fst (column_entry q qual f) =
           \<lparr> columnName = field_name f, filterType = ''FREETEXT'',
             options = [JStr ''Empty'', JStr ''Not Empty''] \<rparr>"
      using s by (intro string_top_failure) auto
  }
  {
    assume "q (countQuery_of qual (field_name f)) = Inr (r # rs)
           \<and> num_le (number_or_zero (get_prop (JObj r) ''c'')) (Fin 20)
           \<and> q (listQuery_of qual (field_name f)) = Inl e"
    then show "fst (column_entry q qual f) =
           \<lparr> columnName = field_name f, filterType = ''LIST'',
             options = [JStr ''Empty'', JStr ''Not Empty''] \<rparr>"
      using s by (intro string_list_failure) auto
  }
next
  assume "toUpperCase (field_type f) = ''BOOL'' \<or> toUpperCase (field_type f) = ''BOOLEAN''"
  then show "column_entry q qual f =
          (\<lparr> columnName = field_name f, filterType = ''BOOLEAN'',
             options = [JBool True, JBool False] \<rparr>, [])"
    by (rule boolean_entry)
next
  assume "q (countQuery_of qual (field_name f)) = q' (countQuery_of qual (field_name f))
        \<and> q (listQuery_of qual (field_name f)) = q' (listQuery_of qual (field_name f))
        \<and> q (topQuery_of qual (field_name f)) = q' (topQuery_of qual (field_name f))"
  then show "column_entry q qual f = column_entry q' qual f"
    by (intro column_entry_own_queries) auto
next
  show "fst (generateFilterConfig q p d t fs) =
       map (\<lambda>f. fst (column_entry q (qualified_of p d t) f))
           (filter (\<lambda>f. field_type f \<noteq> ''RECORD'') fs)"
    by (rule config_is_map)
qed

theorem discovery_failure_is_local_witness:
  "fst (column_entry unavailable_store ''`p.d.t`'' \<lparr> field_name = ''status'', field_type = ''STRING'' \<rparr>)
     = \<lparr> columnName = ''status'', filterType = ''FREETEXT'',
         options = [JStr ''Empty'', JStr ''Not Empty''] \<rparr>
   \<and> fst (column_entry count_only_store ''`p.d.t`'' \<lparr> field_name = ''city'', field_type = ''STRING'' \<rparr>)
     = \<lparr> columnName = ''city'', filterType = ''FREETEXT'',
         options = [JStr ''Empty'', JStr ''Not Empty''] \<rparr>
   \<and> fst (column_entry count_only_store ''`p.d.t`'' \<lparr> field_name = ''status'', field_type = ''STRING'' \<rparr>)
     = \<lparr> columnName = ''status'', filterType = ''LIST'',
         options = [JStr ''Empty'', JStr ''Not Empty''] \<rparr>
   \<and> column_entry unavailable_store ''`p.d.t`'' \<lparr> field_name = ''is_open'', field_type = ''BOOLEAN'' \<rparr>
     = (\<lparr> columnName = ''is_open'', filterType = ''BOOLEAN'',
          options = [JBool True, JBool False] \<rparr>, [])
   \<and> column_entry example_store ''`p.d.t`'' \<lparr> field_name = ''status'', field_type = ''STRING'' \<rparr>
     = column_entry (\<lambda>s. if s = countQuery_of ''`p.d.t`'' ''city'' then Inl (StoreError ''timeout'')
                          else example_store s)
         ''`p.d.t`'' \<lparr> field_name = ''status'', field_type = ''STRING'' \<rparr>"
proof -
  let ?status = "\<lparr> field_name = ''status'', field_type = ''STRING'' \<rparr>"
  let ?city = "\<lparr> field_name = ''city'', field_type = ''STRING'' \<rparr>"
  let ?open = "\<lparr> field_name = ''is_open'', field_type = ''BOOLEAN'' \<rparr>"
  let ?q' = "\<lambda>s. if s = countQuery_of ''`p.d.t`'' ''city'' then Inl (StoreError ''timeout'')
                   else example_store s"
  have s: "toUpperCase (field_type ?status) = ''STRING''" "toUpperCase (field_type ?city) = ''STRING''"
    by code_simp+
  have down: "unavailable_store (countQuery_of ''`p.d.t`'' (field_name ?status))
              = Inl (StoreError ''unavailable'')"
    by code_simp
  have top: "count_only_store (countQuery_of ''`p.d.t`'' (field_name ?city)) = Inr ([(''c'', JNum (Fin 25))] # [])
      \<and> \<not> num_le (number_or_zero (get_prop (JObj [(''c'', JNum (Fin 25))]) ''c'')) (Fin 20)
      \<and> count_only_store (topQuery_of ''`p.d.t`'' (field_name ?city)) = Inl (StoreError ''unavailable'')"
    by code_simp
  have lst: "count_only_store (countQuery_of ''`p.d.t`'' (field_name ?status)) = Inr ([(''c'', JNum (Fin 3))] # [])
      \<and> num_le (number_or_zero (get_prop (JObj [(''c'', JNum (Fin 3))]) ''c'')) (Fin 20)
      \<and> count_only_store (listQuery_of ''`p.d.t`'' (field_name ?status)) = Inl (StoreError ''unavailable'')"
    by code_simp
  have bool: "toUpperCase (field_type ?open) = ''BOOL'' \<or> toUpperCase (field_type ?open) = ''BOOLEAN''"
    by code_simp
  have same: "example_store (countQuery_of ''`p.d.t`'' (field_name ?status))
                = ?q' (countQuery_of ''`p.d.t`'' (field_name ?status))
        \<and> example_store (listQuery_of ''`p.d.t`'' (field_name ?status))
                = ?q' (listQuery_of ''`p.d.t`'' (field_name ?status))
        \<and> example_store (topQuery_of ''`p.d.t`'' (field_name ?status))
                = ?q' (topQuery_of ''`p.d.t`'' (field_name ?status))"
    by code_simp
  from discovery_failure_is_local
         [where f = ?status and q = unavailable_store and qual = "''`p.d.t`''"
            and e = "StoreError ''unavailable''", THEN conjunct1] s down
  have a: "fst (column_entry unavailable_store ''`p.d.t`'' ?status)
     = \<lparr> columnName = ''status'', filterType = ''FREETEXT'',
         options = [JStr ''Empty'', JStr ''Not Empty''] \<rparr>"
    by simp
  from discovery_failure_is_local
         [where f = ?city and q = count_only_store and qual = "''`p.d.t`''"
            and r = "[(''c'', JNum (Fin 25))]" and rs = "[]"
            and e = "StoreError ''unavailable''", THEN conjunct1] s top
  have b: "fst (column_entry count_only_store ''`p.d.t`'' ?city)
     = \<lparr> columnName = ''city'', filterType = ''FREETEXT'',
         options = [JStr ''Empty'', JStr ''Not Empty''] \<rparr>"
    by simp
  from discovery_failure_is_local
         [where f = ?status and q = count_only_store and qual = "''`p.d.t`''"
            and r = "[(''c'', JNum (Fin 3))]" and rs = "[]"
            and e = "StoreError ''unavailable''", THEN conjunct1] s lst
  have c: "fst (column_entry count_only_store ''`p.d.t`'' ?status)
     = \<lparr> columnName = ''status'', filterType = ''LIST'',
         options = [JStr ''Empty'', JStr ''Not Empty''] \<rparr>"
    by simp
  from discovery_failure_is_local
         [where f = ?open and q = unavailable_store and qual = "''`p.d.t`''",
          THEN conjunct2, THEN conjunct1, rule_format, OF bool]
  have d: "column_entry unavailable_store ''`p.d.t`'' ?open
     = (\<lparr> columnName = ''is_open'', filterType = ''BOOLEAN'',
          options = [JBool True, JBool False] \<rparr>, [])"
    by simp
  from discovery_failure_is_local
         [where f = ?status and q = example_store and q' = ?q' and qual = "''`p.d.t`''",
          THEN conjunct2, THEN conjunct2, THEN conjunct1] same
  have e: "column_entry example_store ''`p.d.t`'' ?status = column_entry ?q' ''`p.d.t`'' ?status"
    by simp
  from a b c d e show ?thesis
    by blast
qed

text \<open>
  C5 as stated fails: when the count succeeds with 3 and the query for the distinct values
  fails, the column is a \<open>LIST\<close>, not \<open>FREETEXT\<close>.
\<close>

theorem list_query_failure_counterexample:
  "count_only_store (listQuery_of ''`p.d.t`'' ''status'') = Inl (StoreError ''unavailable'')
   \<and> fst (generateFilterConfig count_only_store ''p'' ''d'' ''t''
            [\<lparr> field_name = ''status'', field_type = ''STRING'' \<rparr>])
     = [\<lparr> columnName = ''status'', filterType = ''LIST'',
          options = [JStr ''Empty'', JStr ''Not Empty''] \<rparr>]"
  by code_simp
end
